theory Spec2Isabelle
  imports Main "HOL-Library.Code_Target_Nat"
begin

section \<open>The configuration subsystem of the Epoch init system (src/config.c)\<close>

text \<open>
  A shallow embedding of \<^verbatim>\<open>config.c\<close>: the parser of epoch.conf (\<^verbatim>\<open>InitConfig\<close>), the
  integrity scan, the lookup functions of the object table, the in-place editor
  (\<^verbatim>\<open>EditConfigValue\<close>) and the reload (\<^verbatim>\<open>ReloadConfig\<close>).

  The linked lists of the source (object table, runlevels of an object, priority aliases,
  runlevel inheritance) keep one empty node at their end; a list pointer is NULL exactly
  when the list has no entry. They are HOL lists of their entries, and a pointer to a node
  of the object table is the index of the node.
\<close>

subsection \<open>C strings\<close>

abbreviation NUL :: char where "NUL \<equiv> CHR 0x00"
abbreviation NL :: char where "NL \<equiv> CHR 0x0A"
abbreviation TAB :: char where "TAB \<equiv> CHR 0x09"
abbreviation SP :: char where "SP \<equiv> CHR '' ''"

text \<open>The C string held by a buffer: its bytes before the first NUL.\<close>

definition c_str :: "string \<Rightarrow> string" where
  "c_str bytes = takeWhile (\<lambda>c. c \<noteq> NUL) bytes"

text \<open>The byte at an index of a C string; the terminator stands at its length.\<close>

definition c_at :: "string \<Rightarrow> nat \<Rightarrow> char" where
  "c_at s i = (if i < length s then s ! i else NUL)"

text \<open>\<^verbatim>\<open>!strncmp(s, k, strlen(k))\<close>: the first \<open>strlen(k)\<close> bytes of \<open>s\<close> are \<open>k\<close>.\<close>

definition strncmp_eq :: "string \<Rightarrow> string \<Rightarrow> bool" where
  "strncmp_eq s k = (take (length k) s = k)"

text \<open>\<^verbatim>\<open>snprintf(dst, n, "%s", src)\<close>: at most \<open>n - 1\<close> bytes are stored.\<close>

definition snprintf_s :: "nat \<Rightarrow> string \<Rightarrow> string" where
  "snprintf_s n src = take (n - 1) src"

text \<open>\<^verbatim>\<open>strstr(hay, needle)\<close>: the offset of the first occurrence, None for NULL.\<close>

fun strstr :: "string \<Rightarrow> string \<Rightarrow> nat option" where
  "strstr [] needle = (if needle = [] then Some 0 else None)"
| "strstr (c # hay) needle =
     (if take (length needle) (c # hay) = needle then Some 0
      else map_option Suc (strstr hay needle))"

definition is_blank :: "char \<Rightarrow> bool" where
  "is_blank c = (c = SP \<or> c = TAB)"

text \<open>The bytes that end a whitespace-separated argument (and the terminator).\<close>

definition ends_arg :: "char \<Rightarrow> bool" where
  "ends_arg c = (c = SP \<or> c = TAB \<or> c = NL \<or> c = NUL)"

definition ends_line :: "char \<Rightarrow> bool" where
  "ends_line c = (c = NL \<or> c = NUL)"

text \<open>
  \<^verbatim>\<open>NextLine\<close>: the text after the next newline; NULL (None) when there is no newline
  or nothing follows it.
\<close>

definition NextLine :: "string \<Rightarrow> string option" where
  "NextLine InStream =
     (case dropWhile (\<lambda>c. c \<noteq> NL) InStream of
        [] \<Rightarrow> None
      | nl # rest \<Rightarrow> (if rest = [] then None else Some rest))"

text \<open>
  \<^verbatim>\<open>WhitespaceArg\<close>: skips the current argument and the blanks after it; NULL (None)
  when the line or the buffer ends first.
\<close>

definition WhitespaceArg :: "string \<Rightarrow> string option" where
  "WhitespaceArg InStream =
     (let s1 = dropWhile (\<lambda>c. \<not> ends_arg c) InStream in
      if ends_line (c_at s1 0) then None
      else
        let s2 = dropWhile is_blank s1 in
        if ends_line (c_at s2 0) then None else Some s2)"

text \<open>
  The successive values of \<open>TWorker\<close> in a loop
  \<^verbatim>\<open>do { ... } while ((TWorker = WhitespaceArg(TWorker)))\<close>.
\<close>

function WhitespaceArgs :: "string \<Rightarrow> string list" where
  "WhitespaceArgs TWorker =
     TWorker # (case WhitespaceArg TWorker of None \<Rightarrow> [] | Some t \<Rightarrow> WhitespaceArgs t)"
  by pat_completeness auto

lemma WhitespaceArg_shorter:
  assumes "WhitespaceArg s = Some t"
  shows "length t < length s"
proof -
  define s1 where "s1 = dropWhile (\<lambda>c. \<not> ends_arg c) s"
  from assms have ne: "\<not> ends_line (c_at s1 0)" and t: "t = dropWhile is_blank s1"
    by (auto simp: WhitespaceArg_def Let_def s1_def split: if_splits)
  from ne have "s1 \<noteq> []" by (auto simp: ends_line_def c_at_def)
  then obtain c r where s1: "s1 = c # r" by (cases s1) auto
  have "ends_arg c"
    using hd_dropWhile[of "\<lambda>c. \<not> ends_arg c" s] s1 unfolding s1_def by auto
  with ne s1 have "is_blank c"
    by (auto simp: ends_arg_def ends_line_def is_blank_def c_at_def)
  with s1 t have "length t \<le> length r"
    by (simp add: length_dropWhile_le)
  moreover have "length s1 \<le> length s"
    by (simp add: s1_def length_dropWhile_le)
  ultimately show ?thesis using s1 by simp
qed

termination WhitespaceArgs
  by (relation "measure length") (auto dest: WhitespaceArg_shorter)

declare WhitespaceArgs.simps [simp del]

subsection \<open>The data model\<close>

text \<open>
  Modelled from the spec: the header epoch.h, which declares \<^verbatim>\<open>ObjTable\<close>, \<^verbatim>\<open>rStatus\<close>,
  \<^verbatim>\<open>Bool\<close>, the stop modes and the size macros, is not among the sources. The fields are
  the ones config.c reads and writes. config.c handles a priority as \<^verbatim>\<open>unsigned long\<close>
  (the alias target, the argument of \<^verbatim>\<open>GetObjectByPriority\<close>, the result of
  \<^verbatim>\<open>GetHighestPriority\<close>): the two priorities are numbers below \<open>2 ^ 64\<close>, and the
  arithmetic on them wraps around (\<open>ulong_inc\<close>, \<open>to_ulong\<close>). The signal number is taken
  as one byte (config.c warns of a number above 255). A \<^verbatim>\<open>Bool\<close> that the source also
  gives the value 2 (\<open>Enabled\<close>, the result of \<open>ObjRL_CheckRunlevel\<close>, \<open>AutoMountOpts\<close>)
  is a \<open>nat\<close> with false = 0 and true = 1.
\<close>

text \<open>
  The machine integers (Linux, 64 bits): \<^verbatim>\<open>int\<close> has 32 bits, \<^verbatim>\<open>long\<close> and
  \<^verbatim>\<open>unsigned long\<close> have 64. \<open>to_int\<close> is the conversion of a \<^verbatim>\<open>long\<close> to \<^verbatim>\<open>int\<close>,
  \<open>to_ulong\<close> the conversion of a signed number to \<^verbatim>\<open>unsigned long\<close>, \<open>ulong_inc\<close> the
  operator \<^verbatim>\<open>++\<close> on an \<^verbatim>\<open>unsigned long\<close>, and \<open>to_uchar\<close> the conversion to one byte.
\<close>

definition to_int :: "int \<Rightarrow> int" where
  "to_int v = (let w = v mod 2 ^ 32 in if w < 2 ^ 31 then w else w - 2 ^ 32)"

definition to_ulong :: "int \<Rightarrow> nat" where
  "to_ulong v = nat (v mod 2 ^ 64)"

definition ulong_inc :: "nat \<Rightarrow> nat" where
  "ulong_inc n = (n + 1) mod 2 ^ 64"

definition to_uchar :: "int \<Rightarrow> nat" where
  "to_uchar v = nat (v mod 256)"

datatype rStatus = FAILURE | SUCCESS | WARNING

datatype StopMode = STOP_NONE | STOP_COMMAND | STOP_PID | STOP_PIDFILE

record ObjTable =
  ObjectID :: string
  ObjectDescription :: string
  ObjectStartCommand :: string
  ObjectStopCommand :: string
  ObjectReloadCommand :: string
  ObjectPIDFile :: string
  ObjectStartPriority :: nat
  ObjectStopPriority :: nat
  ObjectPID :: nat
  Enabled :: nat
  Started :: bool
  TermSignal :: nat
  ObjectRunlevels :: "string list"
  Opts_StopMode :: StopMode
  Opts_CanStop :: bool
  Opts_HaltCmdOnly :: bool
  Opts_RawDescription :: bool
  Opts_IsService :: bool
  Opts_AutoRestart :: bool
  Opts_EmulNoWait :: bool
  Opts_ForceShell :: bool

subsection \<open>Runlevels and runlevel inheritance\<close>

text \<open>\<^verbatim>\<open>RLInheritance_Add\<close> appends the pair to the list.\<close>

definition RLInheritance_Add ::
  "string \<Rightarrow> string \<Rightarrow> (string \<times> string) list \<Rightarrow> (string \<times> string) list" where
  "RLInheritance_Add Inheriter Inherited RLI = RLI @ [(Inheriter, Inherited)]"

text \<open>\<^verbatim>\<open>RLInheritance_Check\<close>: is the pair stored in the list?\<close>

fun RLInheritance_Check :: "(string \<times> string) list \<Rightarrow> string \<Rightarrow> string \<Rightarrow> bool" where
  "RLInheritance_Check [] Inheriter Inherited = False"
| "RLInheritance_Check (Worker # Next) Inheriter Inherited =
     (if Inheriter = fst Worker \<and> Inherited = snd Worker then True
      else RLInheritance_Check Next Inheriter Inherited)"

text \<open>The first loop of \<^verbatim>\<open>ObjRL_CheckRunlevel\<close>: 2 when a runlevel of the object is inherited.\<close>

fun CheckRunlevel_inherited :: "(string \<times> string) list \<Rightarrow> string \<Rightarrow> string list \<Rightarrow> nat" where
  "CheckRunlevel_inherited RLI InRL [] = 0"
| "CheckRunlevel_inherited RLI InRL (RL # Next) =
     (if RLInheritance_Check RLI InRL RL then 2 else CheckRunlevel_inherited RLI InRL Next)"

text \<open>The second loop: true (1) when the runlevel itself is listed, else the first loop's value.\<close>

fun CheckRunlevel_direct :: "string \<Rightarrow> nat \<Rightarrow> string list \<Rightarrow> nat" where
  "CheckRunlevel_direct InRL RetVal [] = RetVal"
| "CheckRunlevel_direct InRL RetVal (RL # Next) =
     (if RL = InRL then 1 else CheckRunlevel_direct InRL RetVal Next)"

definition ObjRL_CheckRunlevel ::
  "(string \<times> string) list \<Rightarrow> string \<Rightarrow> ObjTable \<Rightarrow> bool \<Rightarrow> nat" where
  "ObjRL_CheckRunlevel RLI InRL InObj CountInherited =
     (if ObjectRunlevels InObj = [] then 0
      else
        let RetVal = (if CountInherited
                      then CheckRunlevel_inherited RLI InRL (ObjectRunlevels InObj) else 0)
        in CheckRunlevel_direct InRL RetVal (ObjectRunlevels InObj))"

text \<open>\<^verbatim>\<open>ObjRL_AddRunlevel\<close> appends the name, cut to the field's size.\<close>

definition ObjRL_AddRunlevel :: "nat \<Rightarrow> string \<Rightarrow> ObjTable \<Rightarrow> ObjTable" where
  "ObjRL_AddRunlevel max_descript InRL InObj =
     InObj\<lparr>ObjectRunlevels := ObjectRunlevels InObj @ [snprintf_s max_descript InRL]\<rparr>"

text \<open>\<^verbatim>\<open>ObjRL_ValidRunlevel\<close>: some object that is not halt-only is in the runlevel.\<close>

fun ObjRL_ValidRunlevel :: "(string \<times> string) list \<Rightarrow> ObjTable list \<Rightarrow> string \<Rightarrow> bool" where
  "ObjRL_ValidRunlevel RLI [] InRL = False"
| "ObjRL_ValidRunlevel RLI (Worker # Next) InRL =
     (if \<not> Opts_HaltCmdOnly Worker \<and> ObjRL_CheckRunlevel RLI InRL Worker True \<noteq> 0 then True
      else ObjRL_ValidRunlevel RLI Next InRL)"

subsection \<open>The environment, the global state and the log\<close>

text \<open>
  Modelled from the spec: the macros of epoch.h and the functions of other files that
  config.c uses are not among the sources; they are parameters of the model.
  \<open>SetBannerColor\<close> (console code) gives the new banner colour from its argument and
  the old colour.
\<close>

record env =
  MAX_LINE_SIZE :: nat
  MAX_DESCRIPT_SIZE :: nat
  USE_SHELL_BY_DEFAULT :: bool
  CONSOLE_COLOR_YELLOW :: string
  CONSOLE_ENDCOLOR :: string
  SetBannerColor :: "string \<Rightarrow> string \<Rightarrow> string"

definition SIGINT :: nat where "SIGINT = 2"
definition SIGQUIT :: nat where "SIGQUIT = 3"
definition SIGABRT :: nat where "SIGABRT = 6"
definition SIGKILL :: nat where "SIGKILL = 9"
definition SIGUSR1 :: nat where "SIGUSR1 = 10"
definition SIGUSR2 :: nat where "SIGUSR2 = 12"
definition SIGTERM :: nat where "SIGTERM = 15"

text \<open>The kinds of \<^verbatim>\<open>ConfigProblem\<close>.\<close>

datatype problem =
  CONFIG_EMISSINGVAL | CONFIG_EBADVAL | CONFIG_ETRUNCATED | CONFIG_EAFTER | CONFIG_EBEFORE
  | CONFIG_ELARGENUM

text \<open>
  What the subsystem reports: a call of \<^verbatim>\<open>ConfigProblem\<close> (kind, attribute, value, line),
  and the warnings, errors, log lines and console lines it prints itself, each named by
  its text with the values printed into it.
\<close>

datatype event =
  ConfigProblem problem string "string option" nat
  | Warn_StrayTerminator nat
  | Warn_Unidentified nat
  | Warn_NoTerminator
  | Warn_NowaitDeprecated string nat
  | Warn_ForceShellIgnored string nat
  | Warn_HostnameFile string
  | Warn_HostnameBlanks
  | Warn_MoreRunlevelLines string nat
  | Warn_Noncritical
  | Warn_MissingDescription string
  | Warn_NoStartCommand string
  | Warn_HaltOnlyPID string
  | Err_NoParameter string
  | Err_StatFailed
  | Err_EmptyConfig
  | Err_NoObjects
  | Err_NoDefaultRunlevel
  | Err_RunlevelMissing bool string
  | Err_NoCommands string
  | Err_NoRunlevels string
  | Err_NoEnabled string
  | Err_DuplicateID string
  | Err_ReloadFailed
  | Out_SwitchRunlevelFirst
  | Out_RunlevelPrompt
  | Out_EmergencyShell
  | Out_RunlevelAccepted
  | Out_RunlevelNotFound
  | Out_DumpPrompt
  | Out_Dump string
  | Out_NotDumping
  | Out_Reloaded
  | Log_Reloading
  | Log_BackingUp
  | Log_ShuttingDown
  | Log_Initializing
  | Log_ReloadFailed
  | Log_RestoringStatuses
  | Log_ReloadSuccessful

text \<open>
  The globals of the subsystem, the statics of its functions (\<open>WasRunBefore\<close> of
  \<^verbatim>\<open>ScanConfigIntegrity\<close>, \<open>LastObject\<close> of \<^verbatim>\<open>InitConfig\<close>), the locals of the parse loop of
  \<^verbatim>\<open>InitConfig\<close> while it runs (\<open>CurObj\<close>, \<open>LineNum\<close>, \<open>LongComment\<close>), and the world it
  touches: the configuration file (None when \<^verbatim>\<open>stat\<close> fails), the other files by path,
  the bytes waiting on standard input, and what has been reported so far.
\<close>

record sys =
  ObjectTable :: "ObjTable list"
  PriorityAliasTree :: "(string \<times> nat) list"
  RunlevelInheritance :: "(string \<times> string) list"
  Hostname :: string
  CurRunlevel :: string
  DisableCAD :: bool
  BlankLogOnBoot :: bool
  ShellEnabled :: bool
  EnableLogging :: bool
  AlignStatusReports :: bool
  AutoMountOpts :: "nat list"
  BannerText :: string
  BannerColor :: string
  ShowBanner :: bool
  WasRunBefore :: bool
  LastObject :: "nat option"
  CurObj :: "nat option"
  LineNum :: nat
  LongComment :: bool
  ConfFile :: "string option"
  Files :: "(string \<times> string) list"
  Stdin :: string
  Log :: "event list"

definition report :: "event \<Rightarrow> sys \<Rightarrow> sys" where
  "report e st = st\<lparr>Log := Log st @ [e]\<rparr>"

text \<open>\<^verbatim>\<open>ConfigProblem\<close> at the current line.\<close>

definition Problem :: "problem \<Rightarrow> string \<Rightarrow> string option \<Rightarrow> sys \<Rightarrow> sys" where
  "Problem Type Attribute AttribVal st =
     report (ConfigProblem Type Attribute AttribVal (LineNum st)) st"

subsection \<open>The object table\<close>

text \<open>
  \<^verbatim>\<open>AddObjectToTable\<close>: the new object, with the default values of its fields, goes to
  the end of the table; the pointer returned is its index.
\<close>

definition NewObject :: "env \<Rightarrow> string \<Rightarrow> ObjTable" where
  "NewObject E ID =
     \<lparr> ObjectID = snprintf_s (MAX_DESCRIPT_SIZE E) ID,
       ObjectDescription = [], ObjectStartCommand = [], ObjectStopCommand = [],
       ObjectReloadCommand = [], ObjectPIDFile = [],
       ObjectStartPriority = 0, ObjectStopPriority = 0, ObjectPID = 0,
       Enabled = 2, Started = False, TermSignal = SIGTERM, ObjectRunlevels = [],
       Opts_StopMode = STOP_NONE, Opts_CanStop = True, Opts_HaltCmdOnly = False,
       Opts_RawDescription = False, Opts_IsService = False, Opts_AutoRestart = False,
       Opts_EmulNoWait = False, Opts_ForceShell = False \<rparr>"

definition AddObjectToTable :: "env \<Rightarrow> string \<Rightarrow> ObjTable list \<Rightarrow> nat \<times> ObjTable list" where
  "AddObjectToTable E ID T = (length T, T @ [NewObject E ID])"

text \<open>\<^verbatim>\<open>LookupObjectInTable\<close>: the first object with the ID (its index).\<close>

fun LookupObjectInTable_from :: "nat \<Rightarrow> ObjTable list \<Rightarrow> string \<Rightarrow> nat option" where
  "LookupObjectInTable_from i [] ID = None"
| "LookupObjectInTable_from i (Worker # Next) ID =
     (if ObjectID Worker = ID then Some i else LookupObjectInTable_from (Suc i) Next ID)"

definition LookupObjectInTable :: "ObjTable list \<Rightarrow> string \<Rightarrow> nat option" where
  "LookupObjectInTable T ID = LookupObjectInTable_from 0 T ID"



text \<open>\<^verbatim>\<open>ShutdownConfig\<close> frees the object table and the inheritance list.\<close>

definition ShutdownConfig :: "sys \<Rightarrow> sys" where
  "ShutdownConfig st = st\<lparr>ObjectTable := [], RunlevelInheritance := []\<rparr>"

subsection \<open>Priority aliases\<close>

text \<open>\<^verbatim>\<open>PriorityAlias_Add\<close>: an alias that is already in the list is left as it is.\<close>

fun PriorityAlias_Add :: "string \<Rightarrow> nat \<Rightarrow> (string \<times> nat) list \<Rightarrow> (string \<times> nat) list" where
  "PriorityAlias_Add Alias Target [] = [(Alias, Target)]"
| "PriorityAlias_Add Alias Target (Worker # Next) =
     (if fst Worker = Alias then Worker # Next
      else Worker # PriorityAlias_Add Alias Target Next)"

text \<open>\<^verbatim>\<open>PriorityAlias_Lookup\<close>: the target of the first entry with the name, 0 when none.\<close>

fun PriorityAlias_Lookup :: "(string \<times> nat) list \<Rightarrow> string \<Rightarrow> nat" where
  "PriorityAlias_Lookup [] Alias = 0"
| "PriorityAlias_Lookup (Worker # Next) Alias =
     (if fst Worker = Alias then snd Worker else PriorityAlias_Lookup Next Alias)"

subsection \<open>Reading a line\<close>

text \<open>
  Modelled from the spec: \<^verbatim>\<open>AllNumeric\<close> is defined in another file of the repository,
  which is not among the sources; the spec has a priority value be "an all-digits
  integer or an alias token".
\<close>

definition is_digit :: "char \<Rightarrow> bool" where
  "is_digit c = (c \<in> set ''0123456789'')"

definition AllNumeric :: "string \<Rightarrow> bool" where
  "AllNumeric s = (s \<noteq> [] \<and> list_all is_digit s)"

text \<open>
  \<^verbatim>\<open>atol\<close> and \<^verbatim>\<open>atoi\<close> on the strings the parser gives them (digits only). \<open>decimal\<close> is
  the number the digits write. C leaves a number beyond the range of the result type
  without a defined value; the model has what the C library of the platform does:
  \<^verbatim>\<open>atol\<close> is \<^verbatim>\<open>strtol\<close>, which stops at \<^verbatim>\<open>LONG_MAX\<close>, and \<^verbatim>\<open>atoi\<close> is that value
  converted to \<^verbatim>\<open>int\<close>.
\<close>

definition decimal :: "string \<Rightarrow> nat" where
  "decimal s = foldl (\<lambda>n c. 10 * n + (of_char c - 48)) 0 (takeWhile is_digit s)"

definition atol :: "string \<Rightarrow> int" where
  "atol s = min (int (decimal s)) (2 ^ 63 - 1)"

definition atoi :: "string \<Rightarrow> int" where
  "atoi s = to_int (atol s)"

text \<open>
  \<^verbatim>\<open>GetLineDelim\<close>: the value of the line at \<open>InStream\<close>, after a run of blanks or one
  \<open>=\<close>; None for FAILURE, when the line ends before any separator.
\<close>

definition GetLineDelim :: "env \<Rightarrow> string \<Rightarrow> string option" where
  "GetLineDelim E InStream =
     (let Inc = length (takeWhile (\<lambda>c. c \<noteq> TAB \<and> c \<noteq> SP \<and> c \<noteq> CHR ''=''
                                     \<and> c \<noteq> NL \<and> c \<noteq> NUL) InStream)
      in if ends_line (c_at InStream Inc) then None
         else
           let cOffset = (if c_at InStream Inc = CHR ''='' then Inc + 1
                          else Inc + length (takeWhile is_blank (drop Inc InStream)))
           in Some (take (MAX_LINE_SIZE E - 1)
                      (takeWhile (\<lambda>c. \<not> ends_line c) (drop cOffset InStream))))"

text \<open>The argument copied into \<open>CurArg\<close> at \<open>TWorker\<close>.\<close>

definition CurArgOf :: "env \<Rightarrow> string \<Rightarrow> string" where
  "CurArgOf E TWorker =
     take (MAX_DESCRIPT_SIZE E - 1) (takeWhile (\<lambda>c. \<not> ends_arg c) TWorker)"

text \<open>
  \<^verbatim>\<open>GetLineDelim\<close> failed: it prints its own error, and the caller calls
  \<^verbatim>\<open>ConfigProblem\<close> with the kind given.
\<close>

definition NoDelim :: "problem \<Rightarrow> string \<Rightarrow> string \<Rightarrow> sys \<Rightarrow> sys" where
  "NoDelim Type Attribute Worker st =
     Problem Type Attribute None
       (report (Err_NoParameter (takeWhile (\<lambda>c. \<not> ends_line c) Worker)) st)"

text \<open>The check \<^verbatim>\<open>(strlen(DelimCurr) + 1) >= limit\<close> after a value has been stored.\<close>

definition Truncated :: "nat \<Rightarrow> string \<Rightarrow> string option \<Rightarrow> string \<Rightarrow> sys \<Rightarrow> sys" where
  "Truncated limit Attribute AttribVal DelimCurr st =
     (if length DelimCurr + 1 \<ge> limit then Problem CONFIG_ETRUNCATED Attribute AttribVal st
      else st)"

text \<open>A write through the pointer \<open>CurObj\<close>.\<close>

definition ModObj :: "nat \<Rightarrow> (ObjTable \<Rightarrow> ObjTable) \<Rightarrow> sys \<Rightarrow> sys" where
  "ModObj i f st = st\<lparr>ObjectTable := (ObjectTable st)[i := f (ObjectTable st ! i)]\<rparr>"

subsection \<open>The attributes of the parse loop\<close>

text \<open>
  The if/else ladder of \<^verbatim>\<open>InitConfig\<close> tests the text at \<open>Worker\<close> against each keyword
  with \<^verbatim>\<open>strncmp\<close> over the keyword's length, in this order; the first test that holds
  selects the branch.
\<close>

datatype attribute =
  A_DisableCAD | A_BlankLogOnBoot | A_ShellEnabled | A_EnableLogging | A_RunlevelInherits
  | A_DefinePriority | A_AlignStatusReports | A_MountVirtual | A_BootBannerText
  | A_BootBannerColor | A_DefaultRunlevel | A_Hostname | A_ObjectID | A_ObjectEnabled
  | A_ObjectOptions | A_ObjectDescription | A_ObjectStartCommand | A_ObjectReloadCommand
  | A_ObjectStopCommand | A_ObjectStartPriority | A_ObjectStopPriority | A_ObjectRunlevels

fun Keyword :: "attribute \<Rightarrow> string" where
  "Keyword A_DisableCAD = ''DisableCAD''"
| "Keyword A_BlankLogOnBoot = ''BlankLogOnBoot''"
| "Keyword A_ShellEnabled = ''ShellEnabled''"
| "Keyword A_EnableLogging = ''EnableLogging''"
| "Keyword A_RunlevelInherits = ''RunlevelInherits''"
| "Keyword A_DefinePriority = ''DefinePriority''"
| "Keyword A_AlignStatusReports = ''AlignStatusReports''"
| "Keyword A_MountVirtual = ''MountVirtual''"
| "Keyword A_BootBannerText = ''BootBannerText''"
| "Keyword A_BootBannerColor = ''BootBannerColor''"
| "Keyword A_DefaultRunlevel = ''DefaultRunlevel''"
| "Keyword A_Hostname = ''Hostname''"
| "Keyword A_ObjectID = ''ObjectID''"
| "Keyword A_ObjectEnabled = ''ObjectEnabled''"
| "Keyword A_ObjectOptions = ''ObjectOptions''"
| "Keyword A_ObjectDescription = ''ObjectDescription''"
| "Keyword A_ObjectStartCommand = ''ObjectStartCommand''"
| "Keyword A_ObjectReloadCommand = ''ObjectReloadCommand''"
| "Keyword A_ObjectStopCommand = ''ObjectStopCommand''"
| "Keyword A_ObjectStartPriority = ''ObjectStartPriority''"
| "Keyword A_ObjectStopPriority = ''ObjectStopPriority''"
| "Keyword A_ObjectRunlevels = ''ObjectRunlevels''"

definition Ladder :: "attribute list" where
  "Ladder =
     [A_DisableCAD, A_BlankLogOnBoot, A_ShellEnabled, A_EnableLogging, A_RunlevelInherits,
      A_DefinePriority, A_AlignStatusReports, A_MountVirtual, A_BootBannerText,
      A_BootBannerColor, A_DefaultRunlevel, A_Hostname, A_ObjectID, A_ObjectEnabled,
      A_ObjectOptions, A_ObjectDescription, A_ObjectStartCommand, A_ObjectReloadCommand,
      A_ObjectStopCommand, A_ObjectStartPriority, A_ObjectStopPriority, A_ObjectRunlevels]"

definition Dispatch :: "string \<Rightarrow> attribute option" where
  "Dispatch Worker = find (\<lambda>a. strncmp_eq Worker (Keyword a)) Ladder"

text \<open>
  The five global switches (\<open>DisableCAD\<close>, \<open>BlankLogOnBoot\<close>, \<open>ShellEnabled\<close>,
  \<open>EnableLogging\<close>, \<open>AlignStatusReports\<close>) share one body: \<open>true\<close>, \<open>false\<close>, or a bad
  value that is reported and replaced by the switch's fallback.
\<close>

definition Do_Switch ::
  "string \<Rightarrow> bool \<Rightarrow> (bool \<Rightarrow> sys \<Rightarrow> sys) \<Rightarrow> env \<Rightarrow> string \<Rightarrow> sys \<Rightarrow> sys" where
  "Do_Switch Attribute fallback assign E Worker st =
     (case GetLineDelim E Worker of
        None \<Rightarrow> NoDelim CONFIG_EMISSINGVAL Attribute Worker st
      | Some DelimCurr \<Rightarrow>
          if DelimCurr = ''true'' then assign True st
          else if DelimCurr = ''false'' then assign False st
          else Problem CONFIG_EBADVAL Attribute (Some DelimCurr) (assign fallback st))"

text \<open>The identifier copied from the start of \<open>DelimCurr\<close> (alias or inheriter).\<close>

definition FirstWord :: "env \<Rightarrow> string \<Rightarrow> string" where
  "FirstWord E DelimCurr =
     take (MAX_DESCRIPT_SIZE E - 1)
       (takeWhile (\<lambda>c. c \<noteq> SP \<and> c \<noteq> TAB \<and> c \<noteq> NUL) DelimCurr)"

text \<open>
  \<open>RunlevelInherits\<close>. When only blanks follow the first word, \<^verbatim>\<open>WhitespaceArg\<close> gives
  NULL and \<^verbatim>\<open>strstr\<close> reads through it: no result (None).
\<close>

definition Do_RunlevelInherits :: "env \<Rightarrow> string \<Rightarrow> sys \<Rightarrow> sys option" where
  "Do_RunlevelInherits E Worker st =
     (case GetLineDelim E Worker of
        None \<Rightarrow> Some (NoDelim CONFIG_EAFTER ''RunlevelInherits'' Worker st)
      | Some DelimCurr \<Rightarrow>
          let Inheriter = FirstWord E DelimCurr;
              TWorker = drop (length Inheriter) DelimCurr
          in if c_at TWorker 0 = NUL
             then Some (Problem CONFIG_EBADVAL ''RunlevelInherits'' (Some DelimCurr) st)
             else
               (case WhitespaceArg TWorker of
                  None \<Rightarrow> None
                | Some TWorker' \<Rightarrow>
                    if strstr TWorker' [SP] \<noteq> None \<or> strstr TWorker' [TAB] \<noteq> None
                    then Some (Problem CONFIG_EBADVAL ''RunlevelInherits'' (Some DelimCurr) st)
                    else Some (st\<lparr>RunlevelInheritance :=
                           RLInheritance_Add Inheriter
                             (snprintf_s (MAX_DESCRIPT_SIZE E) TWorker')
                             (RunlevelInheritance st)\<rparr>)))"

text \<open>
  \<open>DefinePriority\<close>. When only blanks follow the alias, \<^verbatim>\<open>AllNumeric\<close> is given NULL:
  no result (None).
\<close>

definition Do_DefinePriority :: "env \<Rightarrow> string \<Rightarrow> sys \<Rightarrow> sys option" where
  "Do_DefinePriority E Worker st =
     (if CurObj st \<noteq> None then Some (Problem CONFIG_EAFTER ''DefinePriority'' None st)
      else
        (case GetLineDelim E Worker of
           None \<Rightarrow> Some (NoDelim CONFIG_EMISSINGVAL ''DefinePriority'' Worker st)
         | Some DelimCurr \<Rightarrow>
             let Alias = FirstWord E DelimCurr;
                 TWorker = drop (length Alias) DelimCurr
             in if c_at TWorker 0 = NUL
                then Some (Problem CONFIG_EBADVAL ''DefinePriority'' (Some DelimCurr) st)
                else
                  (case WhitespaceArg TWorker of
                     None \<Rightarrow> None
                   | Some TWorker' \<Rightarrow>
                       if \<not> AllNumeric TWorker'
                       then Some (Problem CONFIG_EBADVAL ''DefinePriority'' (Some DelimCurr) st)
                       else Some (st\<lparr>PriorityAliasTree :=
                              PriorityAlias_Add Alias (to_ulong (atol TWorker')) (PriorityAliasTree st)\<rparr>))))"

text \<open>\<open>MountVirtual\<close>: each argument is searched in \<open>VirtualID[0]\<close>, by prefix.\<close>

definition VirtualID :: "string list" where
  "VirtualID = [''procfs'', ''sysfs'', ''devfs'', ''devpts'', ''devshm'']"

fun MountVirtual_search :: "nat \<Rightarrow> string list \<Rightarrow> string \<Rightarrow> nat list \<Rightarrow> nat list option" where
  "MountVirtual_search Inc [] CurArg opts = None"
| "MountVirtual_search Inc (v # vs) CurArg opts =
     (if strncmp_eq CurArg v
      then Some (opts[Inc := (if CurArg = v @ ''+'' then 2 else 1)])
      else MountVirtual_search (Suc Inc) vs CurArg opts)"

definition MountVirtual_arg :: "env \<Rightarrow> string \<Rightarrow> string \<Rightarrow> sys \<Rightarrow> sys" where
  "MountVirtual_arg E DelimCurr TWorker st =
     (case MountVirtual_search 0 VirtualID (CurArgOf E TWorker) (AutoMountOpts st) of
        None \<Rightarrow> Problem CONFIG_EBADVAL ''MountVirtual'' (Some DelimCurr) st
      | Some opts \<Rightarrow> st\<lparr>AutoMountOpts := opts\<rparr>)"

definition Do_MountVirtual :: "env \<Rightarrow> string \<Rightarrow> sys \<Rightarrow> sys" where
  "Do_MountVirtual E Worker st =
     (case GetLineDelim E Worker of
        None \<Rightarrow> NoDelim CONFIG_EMISSINGVAL ''MountVirtual'' Worker st
      | Some DelimCurr \<Rightarrow>
          Truncated (MAX_LINE_SIZE E) ''MountVirtual'' (Some DelimCurr) DelimCurr
            (fold (MountVirtual_arg E DelimCurr) (WhitespaceArgs DelimCurr) st))"

definition Do_BootBannerText :: "env \<Rightarrow> string \<Rightarrow> sys \<Rightarrow> sys" where
  "Do_BootBannerText E Worker st =
     (case GetLineDelim E Worker of
        None \<Rightarrow> NoDelim CONFIG_EMISSINGVAL ''BootBannerText'' Worker st
      | Some DelimCurr \<Rightarrow>
          if DelimCurr = ''NONE''
          then st\<lparr>BannerText := [], BannerColor := [], ShowBanner := False\<rparr>
          else Truncated (MAX_DESCRIPT_SIZE E) ''BootBannerText'' (Some DelimCurr) DelimCurr
                 (st\<lparr>BannerText := snprintf_s (MAX_LINE_SIZE E) DelimCurr,
                     ShowBanner := True\<rparr>))"

definition Do_BootBannerColor :: "env \<Rightarrow> string \<Rightarrow> sys \<Rightarrow> sys" where
  "Do_BootBannerColor E Worker st =
     (case GetLineDelim E Worker of
        None \<Rightarrow> NoDelim CONFIG_EMISSINGVAL ''BootBannerColor'' Worker st
      | Some DelimCurr \<Rightarrow>
          if DelimCurr = ''NONE'' then st\<lparr>BannerColor := []\<rparr>
          else st\<lparr>BannerColor := SetBannerColor E DelimCurr (BannerColor st)\<rparr>)"

text \<open>\<open>DefaultRunlevel\<close>: skipped without a word once a runlevel is set.\<close>

definition Do_DefaultRunlevel :: "env \<Rightarrow> string \<Rightarrow> sys \<Rightarrow> sys" where
  "Do_DefaultRunlevel E Worker st =
     (if CurRunlevel st \<noteq> [] then st
      else if CurObj st \<noteq> None then Problem CONFIG_EAFTER ''DefaultRunlevel'' None st
      else
        (case GetLineDelim E Worker of
           None \<Rightarrow> NoDelim CONFIG_EMISSINGVAL ''DefaultRunlevel'' Worker st
         | Some DelimCurr \<Rightarrow>
             st\<lparr>CurRunlevel := snprintf_s (MAX_DESCRIPT_SIZE E) DelimCurr\<rparr>))"

text \<open>
  \<open>Hostname\<close>: the value itself, or with \<open>FILE\<close> the first line of the file named that
  is not blank, from its first byte that is neither blank nor newline.
\<close>

definition Do_Hostname :: "env \<Rightarrow> string \<Rightarrow> sys \<Rightarrow> sys" where
  "Do_Hostname E Worker st =
     (if CurObj st \<noteq> None then Problem CONFIG_EAFTER ''Hostname'' None st
      else
        (case GetLineDelim E Worker of
           None \<Rightarrow> NoDelim CONFIG_EMISSINGVAL ''Hostname'' Worker st
         | Some DelimCurr \<Rightarrow>
             let set_name = (\<lambda>name.
                   if strstr name [SP] \<noteq> None \<or> strstr name [TAB] \<noteq> None
                   then report Warn_HostnameBlanks (st\<lparr>Hostname := []\<rparr>)
                   else Truncated (MAX_LINE_SIZE E) ''Hostname'' (Some DelimCurr) DelimCurr
                          (st\<lparr>Hostname := name\<rparr>))
             in if strncmp_eq DelimCurr ''FILE''
                then
                  (let TW = dropWhile is_blank (drop 4 DelimCurr) in
                   case map_of (Files st) TW of
                     None \<Rightarrow> report (Warn_HostnameFile TW) st
                   | Some bytes \<Rightarrow>
                       let THostname = c_str (take (MAX_LINE_SIZE E - 1) bytes);
                           TW' = dropWhile (\<lambda>c. c = NL \<or> c = SP \<or> c = TAB) THostname
                       in set_name (takeWhile (\<lambda>c. \<not> ends_line c) TW'))
                else set_name (snprintf_s (MAX_LINE_SIZE E) DelimCurr)))"

definition Do_ObjectID :: "env \<Rightarrow> string \<Rightarrow> sys \<Rightarrow> sys" where
  "Do_ObjectID E Worker st =
     (case GetLineDelim E Worker of
        None \<Rightarrow> NoDelim CONFIG_EMISSINGVAL ''ObjectID'' Worker st
      | Some DelimCurr \<Rightarrow>
          let (i, T) = AddObjectToTable E DelimCurr (ObjectTable st) in
          Truncated (MAX_DESCRIPT_SIZE E) ''ObjectID'' (Some DelimCurr) DelimCurr
            (st\<lparr>ObjectTable := T, CurObj := Some i\<rparr>))"

text \<open>
  The attributes of an object start alike: reported and dropped before any \<open>ObjectID\<close>,
  then the value is read.
\<close>

definition OfObject ::
  "string \<Rightarrow> (nat \<Rightarrow> string \<Rightarrow> sys \<Rightarrow> sys) \<Rightarrow> env \<Rightarrow> string \<Rightarrow> sys \<Rightarrow> sys" where
  "OfObject Attribute body E Worker st =
     (case CurObj st of
        None \<Rightarrow> Problem CONFIG_EBEFORE Attribute None st
      | Some i \<Rightarrow>
          (case GetLineDelim E Worker of
             None \<Rightarrow> NoDelim CONFIG_EMISSINGVAL Attribute Worker st
           | Some DelimCurr \<Rightarrow> body i DelimCurr st))"

definition ObjectEnabled_body :: "nat \<Rightarrow> string \<Rightarrow> sys \<Rightarrow> sys" where
  "ObjectEnabled_body i DelimCurr st =
     (if DelimCurr = ''true'' then ModObj i (\<lambda>ob. ob\<lparr>Enabled := 1\<rparr>) st
      else if DelimCurr = ''false'' then ModObj i (\<lambda>ob. ob\<lparr>Enabled := 0\<rparr>) st
      else Problem CONFIG_EBADVAL ''ObjectEnabled'' (Some DelimCurr) st)"

text \<open>
  \<open>ObjectOptions\<close>: one pass of the loop body for the argument \<open>CurArg\<close>. The flag says
  whether the loop goes on (\<^verbatim>\<open>continue\<close>, or the end of the body) or stops (\<^verbatim>\<open>break\<close>).
\<close>

definition TermSignal_arg :: "nat \<Rightarrow> string \<Rightarrow> sys \<Rightarrow> sys" where
  "TermSignal_arg i CurArg st =
     (let TWorker = drop (length ''TERMSIGNAL'') CurArg in
      if c_at TWorker 0 \<noteq> CHR ''='' \<or> c_at TWorker 1 = NUL
      then Problem CONFIG_EBADVAL ''ObjectOptions'' (Some CurArg) st
      else
        let TWorker = drop 1 TWorker;
            sig = (\<lambda>n. ModObj i (\<lambda>ob. ob\<lparr>TermSignal := n\<rparr>))
        in if AllNumeric TWorker
           then sig (to_uchar (atoi TWorker))
                  (if atoi TWorker > 255 then Problem CONFIG_ELARGENUM CurArg None st else st)
           else if TWorker = ''SIGTERM'' then sig SIGTERM st
           else if TWorker = ''SIGKILL'' then sig SIGKILL st
           else if TWorker = ''SIGHUP'' then sig SIGKILL st
           else if TWorker = ''SIGINT'' then sig SIGINT st
           else if TWorker = ''SIGABRT'' then sig SIGABRT st
           else if TWorker = ''SIGQUIT'' then sig SIGQUIT st
           else if TWorker = ''SIGUSR1'' then sig SIGUSR1 st
           else if TWorker = ''SIGUSR2'' then sig SIGUSR2 st
           else Problem CONFIG_EBADVAL ''ObjectOptions'' (Some TWorker) st)"

definition ObjectOptions_arg :: "nat \<Rightarrow> string \<Rightarrow> sys \<Rightarrow> bool \<times> sys" where
  "ObjectOptions_arg i CurArg st =
     (let ID = ObjectID (ObjectTable st ! i) in
      if CurArg = ''NOWAIT''
      then (True, report (Warn_NowaitDeprecated ID (LineNum st))
                    (ModObj i (\<lambda>ob. ob\<lparr>Opts_EmulNoWait := True\<rparr>) st))
      else if CurArg = ''HALTONLY''
      then (True, ModObj i (\<lambda>ob. ob\<lparr>Started := True, Opts_CanStop := False,
                                     Opts_HaltCmdOnly := True\<rparr>) st)
      else if CurArg = ''PERSISTENT''
      then (True, ModObj i (\<lambda>ob. ob\<lparr>Opts_CanStop := False\<rparr>) st)
      else if CurArg = ''RAWDESCRIPTION''
      then (True, ModObj i (\<lambda>ob. ob\<lparr>Opts_RawDescription := True\<rparr>) st)
      else if CurArg = ''SERVICE''
      then (True, ModObj i (\<lambda>ob. ob\<lparr>Opts_IsService := True\<rparr>) st)
      else if CurArg = ''AUTORESTART''
      then (True, ModObj i (\<lambda>ob. ob\<lparr>Opts_AutoRestart := True\<rparr>) st)
      else if CurArg = ''FORCESHELL''
      then (True, if \<not> ShellEnabled st
                  then report (Warn_ForceShellIgnored ID (LineNum st)) st
                  else ModObj i (\<lambda>ob. ob\<lparr>Opts_ForceShell := True\<rparr>) st)
      else if strncmp_eq CurArg ''TERMSIGNAL''
      then (True, TermSignal_arg i CurArg st)
      else (False, Problem CONFIG_EBADVAL ''ObjectOptions'' (Some CurArg) st))"

fun ObjectOptions_loop :: "env \<Rightarrow> nat \<Rightarrow> string list \<Rightarrow> sys \<Rightarrow> sys" where
  "ObjectOptions_loop E i [] st = st"
| "ObjectOptions_loop E i (TWorker # rest) st =
     (case ObjectOptions_arg i (CurArgOf E TWorker) st of
        (True, st') \<Rightarrow> ObjectOptions_loop E i rest st'
      | (False, st') \<Rightarrow> st')"

definition ObjectOptions_body :: "env \<Rightarrow> nat \<Rightarrow> string \<Rightarrow> sys \<Rightarrow> sys" where
  "ObjectOptions_body E i DelimCurr st =
     ObjectOptions_loop E i (WhitespaceArgs DelimCurr)
       (Truncated (MAX_LINE_SIZE E) ''ObjectOptions'' (Some DelimCurr) DelimCurr st)"

definition ObjectDescription_body :: "env \<Rightarrow> nat \<Rightarrow> string \<Rightarrow> sys \<Rightarrow> sys" where
  "ObjectDescription_body E i DelimCurr st =
     Truncated (MAX_DESCRIPT_SIZE E) ''ObjectDescription'' (Some DelimCurr) DelimCurr
       (ModObj i (\<lambda>ob. ob\<lparr>ObjectDescription := snprintf_s (MAX_DESCRIPT_SIZE E) DelimCurr\<rparr>) st)"

definition ObjectStartCommand_body :: "env \<Rightarrow> nat \<Rightarrow> string \<Rightarrow> sys \<Rightarrow> sys" where
  "ObjectStartCommand_body E i DelimCurr st =
     Truncated (MAX_LINE_SIZE E) ''ObjectStartCommand'' (Some DelimCurr) DelimCurr
       (ModObj i (\<lambda>ob. ob\<lparr>ObjectStartCommand := snprintf_s (MAX_LINE_SIZE E) DelimCurr\<rparr>) st)"

definition ObjectReloadCommand_body :: "env \<Rightarrow> nat \<Rightarrow> string \<Rightarrow> sys \<Rightarrow> sys" where
  "ObjectReloadCommand_body E i DelimCurr st =
     Truncated (MAX_LINE_SIZE E) ''ObjectReloadCommand'' None DelimCurr
       (ModObj i (\<lambda>ob. ob\<lparr>ObjectReloadCommand := snprintf_s (MAX_LINE_SIZE E) DelimCurr\<rparr>) st)"

text \<open>\<open>ObjectStopCommand\<close>: \<open>PIDFILE\<close>, \<open>PID\<close> and \<open>NONE\<close> are tested as prefixes of the value.\<close>

definition ObjectStopCommand_body :: "env \<Rightarrow> nat \<Rightarrow> string \<Rightarrow> sys \<Rightarrow> sys" where
  "ObjectStopCommand_body E i DelimCurr st =
     Truncated (MAX_LINE_SIZE E) ''ObjectStopCommand'' (Some DelimCurr) DelimCurr
       (if strncmp_eq DelimCurr ''PIDFILE''
        then ModObj i (\<lambda>ob. ob\<lparr>ObjectPIDFile :=
                 snprintf_s (MAX_LINE_SIZE E)
                   (dropWhile is_blank (drop (length ''PIDFILE'') DelimCurr)),
               Opts_StopMode := STOP_PIDFILE\<rparr>) st
        else if strncmp_eq DelimCurr ''PID''
        then ModObj i (\<lambda>ob. ob\<lparr>Opts_StopMode := STOP_PID\<rparr>) st
        else if strncmp_eq DelimCurr ''NONE''
        then ModObj i (\<lambda>ob. ob\<lparr>Opts_StopMode := STOP_NONE\<rparr>) st
        else ModObj i (\<lambda>ob. ob\<lparr>Opts_StopMode := STOP_COMMAND,
               ObjectStopCommand := snprintf_s (MAX_LINE_SIZE E) DelimCurr\<rparr>) st)"

text \<open>
  \<open>ObjectStartPriority\<close> and \<open>ObjectStopPriority\<close>: a value that is not a number is
  looked up as an alias, and a lookup that gives 0 is a bad value.
\<close>

definition Priority_body ::
  "string \<Rightarrow> (nat \<Rightarrow> ObjTable \<Rightarrow> ObjTable) \<Rightarrow> nat \<Rightarrow> string \<Rightarrow> sys \<Rightarrow> sys" where
  "Priority_body Attribute assign i DelimCurr st =
     (if \<not> AllNumeric DelimCurr
      then
        (let TmpTarget = PriorityAlias_Lookup (PriorityAliasTree st) DelimCurr in
         if TmpTarget = 0 then Problem CONFIG_EBADVAL Attribute (Some DelimCurr) st
         else ModObj i (assign TmpTarget) st)
      else
        (let st' = ModObj i (assign (to_ulong (atoi DelimCurr))) st in
         if length DelimCurr \<ge> 8 then Problem CONFIG_ELARGENUM Attribute None st' else st'))"

definition ObjectStartPriority_body :: "nat \<Rightarrow> string \<Rightarrow> sys \<Rightarrow> sys" where
  "ObjectStartPriority_body =
     Priority_body ''ObjectStartPriority'' (\<lambda>n ob. ob\<lparr>ObjectStartPriority := n\<rparr>)"

definition ObjectStopPriority_body :: "nat \<Rightarrow> string \<Rightarrow> sys \<Rightarrow> sys" where
  "ObjectStopPriority_body =
     Priority_body ''ObjectStopPriority'' (\<lambda>n ob. ob\<lparr>ObjectStopPriority := n\<rparr>)"

text \<open>
  \<open>ObjectRunlevels\<close>: every argument of the value is added as a runlevel. The argument
  is copied into \<open>TRL\<close> without a bound: one that does not fit overruns the buffer, and
  the model gives no result (None).
\<close>

fun ObjectRunlevels_loop :: "env \<Rightarrow> nat \<Rightarrow> string list \<Rightarrow> sys \<Rightarrow> sys option" where
  "ObjectRunlevels_loop E i [] st = Some st"
| "ObjectRunlevels_loop E i (TWorker # rest) st =
     (let TRL = takeWhile (\<lambda>c. \<not> ends_arg c) TWorker in
      if length TRL \<ge> MAX_DESCRIPT_SIZE E then None
      else ObjectRunlevels_loop E i rest
             (ModObj i (ObjRL_AddRunlevel (MAX_DESCRIPT_SIZE E) TRL) st))"

definition Do_ObjectRunlevels :: "env \<Rightarrow> string \<Rightarrow> sys \<Rightarrow> sys option" where
  "Do_ObjectRunlevels E Worker st =
     (case CurObj st of
        None \<Rightarrow> Some (Problem CONFIG_EBEFORE ''ObjectRunlevels'' None st)
      | Some i \<Rightarrow>
          let st1 = (if CurObj st = LastObject st
                     then report (Warn_MoreRunlevelLines (ObjectID (ObjectTable st ! i))
                                    (LineNum st)) st
                     else st)\<lparr>LastObject := CurObj st\<rparr>
          in (case GetLineDelim E Worker of
                None \<Rightarrow> Some (NoDelim CONFIG_EMISSINGVAL ''ObjectRunlevels'' Worker st1)
              | Some DelimCurr \<Rightarrow>
                  map_option
                    (Truncated (MAX_LINE_SIZE E) ''ObjectRunlevels'' (Some DelimCurr) DelimCurr)
                    (ObjectRunlevels_loop E i (WhitespaceArgs DelimCurr) st1)))"

subsection \<open>The parse loop of \<open>InitConfig\<close>\<close>

text \<open>The branch of the ladder for the attribute found at \<open>Worker\<close>.\<close>

fun Do_Attribute :: "attribute \<Rightarrow> env \<Rightarrow> string \<Rightarrow> sys \<Rightarrow> sys option" where
  "Do_Attribute A_DisableCAD E W st =
     Some (Do_Switch ''DisableCAD'' True (\<lambda>b s. s\<lparr>DisableCAD := b\<rparr>) E W st)"
| "Do_Attribute A_BlankLogOnBoot E W st =
     Some (Do_Switch ''BlankLogOnBoot'' False (\<lambda>b s. s\<lparr>BlankLogOnBoot := b\<rparr>) E W st)"
| "Do_Attribute A_ShellEnabled E W st =
     Some (Do_Switch ''ShellEnabled'' (USE_SHELL_BY_DEFAULT E)
             (\<lambda>b s. s\<lparr>ShellEnabled := b\<rparr>) E W st)"
| "Do_Attribute A_EnableLogging E W st =
     Some (Do_Switch ''EnableLogging'' False (\<lambda>b s. s\<lparr>EnableLogging := b\<rparr>) E W st)"
| "Do_Attribute A_RunlevelInherits E W st = Do_RunlevelInherits E W st"
| "Do_Attribute A_DefinePriority E W st = Do_DefinePriority E W st"
| "Do_Attribute A_AlignStatusReports E W st =
     Some (Do_Switch ''AlignStatusReports'' False
             (\<lambda>b s. s\<lparr>AlignStatusReports := b\<rparr>) E W st)"
| "Do_Attribute A_MountVirtual E W st = Some (Do_MountVirtual E W st)"
| "Do_Attribute A_BootBannerText E W st = Some (Do_BootBannerText E W st)"
| "Do_Attribute A_BootBannerColor E W st = Some (Do_BootBannerColor E W st)"
| "Do_Attribute A_DefaultRunlevel E W st = Some (Do_DefaultRunlevel E W st)"
| "Do_Attribute A_Hostname E W st = Some (Do_Hostname E W st)"
| "Do_Attribute A_ObjectID E W st = Some (Do_ObjectID E W st)"
| "Do_Attribute A_ObjectEnabled E W st =
     Some (OfObject ''ObjectEnabled'' ObjectEnabled_body E W st)"
| "Do_Attribute A_ObjectOptions E W st =
     Some (OfObject ''ObjectOptions'' (ObjectOptions_body E) E W st)"
| "Do_Attribute A_ObjectDescription E W st =
     Some (OfObject ''ObjectDescription'' (ObjectDescription_body E) E W st)"
| "Do_Attribute A_ObjectStartCommand E W st =
     Some (OfObject ''ObjectStartCommand'' (ObjectStartCommand_body E) E W st)"
| "Do_Attribute A_ObjectReloadCommand E W st =
     Some (OfObject ''ObjectReloadCommand'' (ObjectReloadCommand_body E) E W st)"
| "Do_Attribute A_ObjectStopCommand E W st =
     Some (OfObject ''ObjectStopCommand'' (ObjectStopCommand_body E) E W st)"
| "Do_Attribute A_ObjectStartPriority E W st =
     Some (OfObject ''ObjectStartPriority'' ObjectStartPriority_body E W st)"
| "Do_Attribute A_ObjectStopPriority E W st =
     Some (OfObject ''ObjectStopPriority'' ObjectStopPriority_body E W st)"
| "Do_Attribute A_ObjectRunlevels E W st = Do_ObjectRunlevels E W st"

text \<open>A line that is not inside a block comment: blank, a comment, or an attribute.\<close>

definition LiveLine :: "env \<Rightarrow> string \<Rightarrow> sys \<Rightarrow> sys option" where
  "LiveLine E Worker st =
     (if c_at Worker 0 = NL then Some st
      else if c_at Worker 0 = CHR ''#'' then Some st
      else
        (case Dispatch Worker of
           None \<Rightarrow> Some (report (Warn_Unidentified (LineNum st)) st)
         | Some a \<Rightarrow> Do_Attribute a E Worker st))"

text \<open>
  The body of the parse loop for the line that starts at \<open>Worker\<close>: the blanks before
  it, the block comments, then the line itself.
\<close>

definition LineBody :: "env \<Rightarrow> string \<Rightarrow> sys \<Rightarrow> sys option" where
  "LineBody E Worker st =
     (let Worker = dropWhile is_blank Worker in
      if strncmp_eq Worker ''<!<''
      then
        (if \<not> LongComment st then Some (report (Warn_StrayTerminator (LineNum st)) st)
         else LiveLine E (dropWhile is_blank (drop (length ''<!<'') Worker))
                (st\<lparr>LongComment := False\<rparr>))
      else if LongComment st then Some st
      else if strncmp_eq Worker ''>!>'' then Some (st\<lparr>LongComment := True\<rparr>)
      else LiveLine E Worker st)"

text \<open>
  The loop \<^verbatim>\<open>do { ... } while (++LineNum, (Worker = NextLine(Worker)))\<close>. The source
  calls \<^verbatim>\<open>NextLine\<close> on the position reached inside the line, past the blanks and a
  comment terminator; none of these bytes is a newline, so the next line is the one
  found from the start of the line (lemmas \<open>NextLine_blanks\<close>, \<open>NextLine_terminator\<close>).
\<close>

lemma NextLine_shorter: "NextLine s = Some t \<Longrightarrow> length t < length s"
proof -
  assume a: "NextLine s = Some t"
  then obtain c where "dropWhile (\<lambda>c. c \<noteq> NL) s = c # t"
    by (auto simp: NextLine_def split: list.splits if_splits)
  then have "length (c # t) \<le> length s"
    by (metis length_dropWhile_le)
  then show ?thesis by simp
qed

function InitConfig_Loop :: "env \<Rightarrow> string \<Rightarrow> sys \<Rightarrow> sys option" where
  "InitConfig_Loop E Worker st =
     (case LineBody E Worker st of
        None \<Rightarrow> None
      | Some st' \<Rightarrow>
          (case NextLine Worker of
             None \<Rightarrow> Some (st'\<lparr>LineNum := LineNum st' + 1\<rparr>)
           | Some Worker' \<Rightarrow> InitConfig_Loop E Worker' (st'\<lparr>LineNum := LineNum st' + 1\<rparr>)))"
  by pat_completeness auto
termination
  by (relation "measure (\<lambda>(E, Worker, st). length Worker)") (auto dest: NextLine_shorter)

declare InitConfig_Loop.simps [simp del]

subsection \<open>After the parse loop: equal priorities, NOWAIT\<close>

text \<open>
  The three nested loops of \<^verbatim>\<open>InitConfig\<close> that move equal priorities apart. The source
  has the same code twice, for the start and for the stop priority; \<open>get\<close> and \<open>put\<close>
  read and write the field. \<open>w\<close>, \<open>c\<close> and \<open>t\<close> are the nodes \<open>ObjWorker\<close>, \<open>CurObj\<close> and
  \<open>TWorker\<close>.

  The innermost loop: every object other than \<open>CurObj\<close> and \<open>ObjWorker\<close> whose priority is
  at least that of \<open>CurObj\<close> goes up by one (\<^verbatim>\<open>++\<close>, which wraps around).
\<close>

definition Dedup_shift ::
  "(ObjTable \<Rightarrow> nat) \<Rightarrow> (nat \<Rightarrow> ObjTable \<Rightarrow> ObjTable) \<Rightarrow> nat \<Rightarrow> nat \<Rightarrow> ObjTable list
     \<Rightarrow> ObjTable list" where
  "Dedup_shift get put w c T =
     fold (\<lambda>t T. if get (T ! t) \<ge> get (T ! c) \<and> c \<noteq> t \<and> t \<noteq> w
                  then T[t := put (ulong_inc (get (T ! t))) (T ! t)] else T)
       [0..<length T] T"

text \<open>The test on \<open>ObjWorker\<close> and \<open>CurObj\<close>, for one of the two priorities.\<close>

definition Dedup_pair ::
  "(ObjTable \<Rightarrow> nat) \<Rightarrow> (nat \<Rightarrow> ObjTable \<Rightarrow> ObjTable) \<Rightarrow> nat \<Rightarrow> nat \<Rightarrow> ObjTable list
     \<Rightarrow> ObjTable list" where
  "Dedup_pair get put w c T =
     (if get (T ! w) \<noteq> 0 \<and> w \<noteq> c \<and> get (T ! c) = get (T ! w)
      then Dedup_shift get put w c (T[c := put (ulong_inc (get (T ! c))) (T ! c)])
      else T)"

text \<open>The body of the middle loop: the start priority, then the stop priority.\<close>

definition Dedup_cur :: "nat \<Rightarrow> nat \<Rightarrow> ObjTable list \<Rightarrow> ObjTable list" where
  "Dedup_cur w c T =
     Dedup_pair ObjectStopPriority (\<lambda>n ob. ob\<lparr>ObjectStopPriority := n\<rparr>) w c
       (Dedup_pair ObjectStartPriority (\<lambda>n ob. ob\<lparr>ObjectStartPriority := n\<rparr>) w c T)"

definition Dedup_worker :: "nat \<Rightarrow> ObjTable list \<Rightarrow> ObjTable list" where
  "Dedup_worker w T = fold (Dedup_cur w) [0..<length T] T"

definition DedupPriorities :: "ObjTable list \<Rightarrow> ObjTable list" where
  "DedupPriorities T = fold Dedup_worker [0..<length T] T"

text \<open>
  NOWAIT is emulated with an ampersand after the start command, unless its last byte
  that is not blank is one. On a command of blanks only the index runs below the start
  of the buffer: no result (None).
\<close>

definition EmulNoWait_obj :: "env \<Rightarrow> ObjTable \<Rightarrow> ObjTable option" where
  "EmulNoWait_obj E ob =
     (if \<not> Opts_EmulNoWait ob then Some ob
      else if ObjectStartCommand ob = [] then Some ob
      else
        (case dropWhile is_blank (rev (ObjectStartCommand ob)) of
           [] \<Rightarrow> None
         | c # head \<Rightarrow>
             if c \<noteq> CHR ''&''
             then Some (ob\<lparr>ObjectStartCommand := ObjectStartCommand ob @
                    take (MAX_LINE_SIZE E - length (ObjectStartCommand ob) - 1) ''&''\<rparr>)
             else Some ob))"

fun EmulNoWait :: "env \<Rightarrow> ObjTable list \<Rightarrow> ObjTable list option" where
  "EmulNoWait E [] = Some []"
| "EmulNoWait E (ObjWorker # Next) =
     (case EmulNoWait_obj E ObjWorker of
        None \<Rightarrow> None
      | Some ob \<Rightarrow> map_option ((#) ob) (EmulNoWait E Next))"

subsection \<open>\<open>ScanConfigIntegrity\<close>\<close>

text \<open>
  The checks on the object at index \<open>i\<close>, in the order of the source. Each takes and
  gives the state and \<open>RetState\<close>; a later check overwrites the \<open>RetState\<close> of an earlier
  one.
\<close>

definition Scan_Description :: "env \<Rightarrow> nat \<Rightarrow> sys \<times> rStatus \<Rightarrow> sys \<times> rStatus" where
  "Scan_Description E i = (\<lambda>(st, RetState).
     let Worker = ObjectTable st ! i in
     if ObjectDescription Worker = []
     then (ModObj i (\<lambda>ob. ob\<lparr>ObjectDescription := snprintf_s (MAX_DESCRIPT_SIZE E)
               (CONSOLE_COLOR_YELLOW E @ ''[missing description]'' @ CONSOLE_ENDCOLOR E)\<rparr>)
             (report (Warn_MissingDescription (ObjectID Worker)) st), WARNING)
     else (st, RetState))"

definition Scan_Commands :: "nat \<Rightarrow> sys \<times> rStatus \<Rightarrow> sys \<times> rStatus" where
  "Scan_Commands i = (\<lambda>(st, RetState).
     let Worker = ObjectTable st ! i in
     if ObjectStartCommand Worker = [] \<and> ObjectStopCommand Worker = [] \<and>
        Opts_StopMode Worker = STOP_COMMAND
     then (report (Err_NoCommands (ObjectID Worker)) st, FAILURE)
     else (st, RetState))"

definition Scan_StartCommand :: "nat \<Rightarrow> sys \<times> rStatus \<Rightarrow> sys \<times> rStatus" where
  "Scan_StartCommand i = (\<lambda>(st, RetState).
     let Worker = ObjectTable st ! i in
     if \<not> Opts_HaltCmdOnly Worker \<and> ObjectStartCommand Worker = []
     then (ModObj i (\<lambda>ob. ob\<lparr>Enabled := 0\<rparr>)
             (report (Warn_NoStartCommand (ObjectID Worker)) st), WARNING)
     else (st, RetState))"

definition Scan_Runlevels :: "nat \<Rightarrow> sys \<times> rStatus \<Rightarrow> sys \<times> rStatus" where
  "Scan_Runlevels i = (\<lambda>(st, RetState).
     let Worker = ObjectTable st ! i in
     if ObjectRunlevels Worker = [] \<and> \<not> Opts_HaltCmdOnly Worker
     then (report (Err_NoRunlevels (ObjectID Worker)) st, FAILURE)
     else (st, RetState))"

definition Scan_Enabled :: "nat \<Rightarrow> sys \<times> rStatus \<Rightarrow> sys \<times> rStatus" where
  "Scan_Enabled i = (\<lambda>(st, RetState).
     let Worker = ObjectTable st ! i in
     if Enabled Worker = 2
     then (report (Err_NoEnabled (ObjectID Worker)) st, FAILURE)
     else (st, RetState))"

definition Scan_HaltPID :: "nat \<Rightarrow> sys \<times> rStatus \<Rightarrow> sys \<times> rStatus" where
  "Scan_HaltPID i = (\<lambda>(st, RetState).
     let Worker = ObjectTable st ! i in
     if Opts_StopMode Worker = STOP_PID \<and> Opts_HaltCmdOnly Worker
     then (ModObj i (\<lambda>ob. ob\<lparr>Enabled := 0\<rparr>)
             (report (Warn_HaltOnlyPID (ObjectID Worker)) st), WARNING)
     else (st, RetState))"

text \<open>The inner loop over \<open>TOffender\<close>: another object with the same ID.\<close>

definition Scan_Duplicate :: "nat \<Rightarrow> nat \<Rightarrow> sys \<times> rStatus \<Rightarrow> sys \<times> rStatus" where
  "Scan_Duplicate i j = (\<lambda>(st, RetState).
     if ObjectID (ObjectTable st ! i) = ObjectID (ObjectTable st ! j) \<and> i \<noteq> j
     then (report (Err_DuplicateID (ObjectID (ObjectTable st ! i))) st, FAILURE)
     else (st, RetState))"

definition Scan_Object :: "env \<Rightarrow> nat \<Rightarrow> sys \<times> rStatus \<Rightarrow> sys \<times> rStatus" where
  "Scan_Object E i sr =
     fold (Scan_Duplicate i) [0..<length (ObjectTable (fst sr))]
       (Scan_HaltPID i (Scan_Enabled i (Scan_Runlevels i (Scan_StartCommand i
          (Scan_Commands i (Scan_Description E i sr))))))"

text \<open>The loop over the objects, and the end of the function.\<close>

definition Scan_Objects :: "env \<Rightarrow> sys \<Rightarrow> rStatus \<times> sys" where
  "Scan_Objects E st =
     (let (st', RetState) = fold (Scan_Object E) [0..<length (ObjectTable st)] (st, SUCCESS)
      in (RetState, st'\<lparr>WasRunBefore := True\<rparr>))"

text \<open>
  \<^verbatim>\<open>fgets(buf, n, stdin)\<close>: the line read and the input left; None for NULL at the end
  of the input.
\<close>

definition fgets :: "nat \<Rightarrow> string \<Rightarrow> (string \<times> string) option" where
  "fgets n inp =
     (if inp = [] then None
      else
        let line = takeWhile (\<lambda>c. c \<noteq> NL) inp;
            got = take (n - 1) (if length line < length inp then line @ [NL] else line)
        in Some (got, drop (length got) inp))"

text \<open>
  The prompt for a runlevel at boot. The model gives no result (None) where the source
  leaves the subsystem or reads a buffer it has not filled: at the end of the input
  (\<open>NewRL\<close> holds no line), on a line read as empty, and on an empty line, where
  \<^verbatim>\<open>EmergencyShell\<close> (another file) takes over.
\<close>

function Scan_Prompt :: "env \<Rightarrow> sys \<Rightarrow> sys option" where
  "Scan_Prompt E st =
     (case fgets (MAX_DESCRIPT_SIZE E) (Stdin st) of
        None \<Rightarrow> None
      | Some (NewRL, rest) \<Rightarrow>
          if NewRL = [] \<or> length rest \<ge> length (Stdin st) then None
          else if c_at NewRL 0 = NL then None
          else
            let NewRL = butlast NewRL;
                st1 = (report Out_RunlevelPrompt st)\<lparr>Stdin := rest\<rparr>
            in if ObjRL_ValidRunlevel (RunlevelInheritance st1) (ObjectTable st1) NewRL
               then Some ((report Out_RunlevelAccepted st1)
                            \<lparr>CurRunlevel := snprintf_s (MAX_DESCRIPT_SIZE E) NewRL\<rparr>)
               else Scan_Prompt E (report Out_RunlevelNotFound st1))"
  by pat_completeness auto
termination
  by (relation "measure (\<lambda>(E, st). length (Stdin st))") (auto simp: report_def)

declare Scan_Prompt.simps [simp del]

definition ScanConfigIntegrity :: "env \<Rightarrow> sys \<Rightarrow> (rStatus \<times> sys) option" where
  "ScanConfigIntegrity E st =
     (if ObjectTable st = [] then Some (FAILURE, report Err_NoObjects st)
      else if CurRunlevel st = [] \<or>
              \<not> ObjRL_ValidRunlevel (RunlevelInheritance st) (ObjectTable st) (CurRunlevel st)
      then
        (let st1 = (if CurRunlevel st = [] then report Err_NoDefaultRunlevel st
                    else (if WasRunBefore st then report Out_SwitchRunlevelFirst else id)
                           (report (Err_RunlevelMissing (WasRunBefore st) (CurRunlevel st)) st))
         in if \<not> WasRunBefore st
            then map_option (Scan_Objects E) (Scan_Prompt E st1)
            else Some (FAILURE, st1))
      else Some (Scan_Objects E st))"

subsection \<open>\<open>InitConfig\<close>\<close>

definition InitLocals :: "sys \<Rightarrow> sys" where
  "InitLocals st = st\<lparr>CurObj := None, LineNum := 1, LongComment := False\<rparr>"

text \<open>After a failed scan the operator may have the file printed: \<open>d\<close> on standard input.\<close>

definition InitConfig_Dump :: "string \<Rightarrow> sys \<Rightarrow> sys" where
  "InitConfig_Dump ConfigStream st =
     (let st1 = report Out_DumpPrompt st in
      case Stdin st1 of
        [] \<Rightarrow> report Out_NotDumping st1
      | c # rest \<Rightarrow>
          (if c = CHR ''d'' then report (Out_Dump ConfigStream) else report Out_NotDumping)
            (st1\<lparr>Stdin := rest\<rparr>))"

text \<open>
  The part of \<open>InitConfig\<close> after the parse loop. The loops over the object table start
  with \<^verbatim>\<open>ObjectTable->Next\<close>: with no object in the table they read through NULL, and
  the model gives no result (None).
\<close>

definition InitConfig_Finish :: "env \<Rightarrow> string \<Rightarrow> sys \<Rightarrow> (rStatus \<times> sys) option" where
  "InitConfig_Finish E ConfigStream st =
     (if ObjectTable st = [] then None
      else
        (case EmulNoWait E (DedupPriorities (ObjectTable st)) of
           None \<Rightarrow> None
         | Some T \<Rightarrow>
             let st1 = (if LongComment st then report Warn_NoTerminator else id)
                         (st\<lparr>ObjectTable := T\<rparr>);
                 st2 = st1\<lparr>PriorityAliasTree := []\<rparr>
             in (case ScanConfigIntegrity E st2 of
                   None \<Rightarrow> None
                 | Some (SUCCESS, st3) \<Rightarrow> Some (SUCCESS, st3)
                 | Some (FAILURE, st3) \<Rightarrow>
                     Some (FAILURE, ShutdownConfig (InitConfig_Dump ConfigStream st3))
                 | Some (WARNING, st3) \<Rightarrow> Some (WARNING, report Warn_Noncritical st3))))"

definition InitConfig :: "env \<Rightarrow> sys \<Rightarrow> (rStatus \<times> sys) option" where
  "InitConfig E st =
     (case ConfFile st of
        None \<Rightarrow> Some (FAILURE, report Err_StatFailed st)
      | Some bytes \<Rightarrow>
          let ConfigStream = c_str bytes in
          if (c_at ConfigStream 0 = NL \<and> c_at ConfigStream 1 = NUL) \<or> c_at ConfigStream 0 = NUL
          then Some (FAILURE, report Err_EmptyConfig st)
          else
            (case InitConfig_Loop E ConfigStream (InitLocals st) of
               None \<Rightarrow> None
             | Some st1 \<Rightarrow> InitConfig_Finish E ConfigStream st1))"

subsection \<open>\<open>ReloadConfig\<close>\<close>

text \<open>
  The backup of the inheritance list. The loop copies every node of the list into the
  node \<open>RLIWorker[1]\<close> points to and gives that node a new empty successor, but
  \<open>RLIWorker[1]\<close> is never moved on: the backup holds what the last pass stored.
\<close>

definition Backup_RLI :: "(string \<times> string) list \<Rightarrow> (string \<times> string) list" where
  "Backup_RLI RLI = fold (\<lambda>node backup. [node]) RLI []"

text \<open>
  The loop over the backup after a successful parse: the object that
  \<open>LookupObjectInTable\<close> finds for the ID gets \<open>Started\<close> and \<open>ObjectPID\<close> of the backup.
\<close>

fun RestoreStatuses :: "ObjTable list \<Rightarrow> ObjTable list \<Rightarrow> ObjTable list" where
  "RestoreStatuses [] T = T"
| "RestoreStatuses (SWorker # Next) T =
     RestoreStatuses Next
       (case LookupObjectInTable T (ObjectID SWorker) of
          None \<Rightarrow> T
        | Some i \<Rightarrow> T[i := (T ! i)\<lparr>Started := Started SWorker,
                                   ObjectPID := ObjectPID SWorker\<rparr>])"

text \<open>
  The state in which \<open>ReloadConfig\<close> calls \<open>InitConfig\<close>: the configuration has been
  shut down, and the steps so far are in the log.
\<close>

definition ReloadConfig_Shutdown :: "sys \<Rightarrow> sys" where
  "ReloadConfig_Shutdown st =
     report Log_Initializing
       (ShutdownConfig
          (report Log_ShuttingDown (report Log_BackingUp (report Log_Reloading st))))"

text \<open>
  \<open>ReloadConfig\<close>. The objects and their runlevels are copied node by node, so the
  backup \<open>TRoot\<close> is the table itself. With no object in the table the first loop reads
  through NULL: no result (None). \<open>GlobalTriple\<close> is read after the shutdown, which does
  not touch the three globals.
\<close>

definition ReloadConfig :: "env \<Rightarrow> sys \<Rightarrow> (rStatus \<times> sys) option" where
  "ReloadConfig E st =
     (if ObjectTable st = [] then None
      else
        let RunlevelBackup = snprintf_s (MAX_DESCRIPT_SIZE E) (CurRunlevel st);
            TRoot = ObjectTable st;
            RLIRoot = Backup_RLI (RunlevelInheritance st);
            st1 = ReloadConfig_Shutdown st;
            GlobalTriple = (EnableLogging st1, DisableCAD st1, AlignStatusReports st1)
        in (case InitConfig E st1 of
              None \<Rightarrow> None
            | Some (r, st2) \<Rightarrow>
                let st3 = (if r = FAILURE
                           then (report Err_ReloadFailed (report Log_ReloadFailed st2))
                                  \<lparr>ObjectTable := TRoot,
                                   RunlevelInheritance := RLIRoot,
                                   CurRunlevel := snprintf_s (MAX_DESCRIPT_SIZE E) RunlevelBackup\<rparr>
                           else st2);
                    st4 = st3\<lparr>EnableLogging := fst GlobalTriple,
                              DisableCAD := fst (snd GlobalTriple),
                              AlignStatusReports := snd (snd GlobalTriple)\<rparr>
                in if r = FAILURE then Some (FAILURE, st4)
                   else
                     Some (SUCCESS,
                       report Out_Reloaded (report Log_ReloadSuccessful
                         ((report Log_RestoringStatuses st4)
                            \<lparr>ObjectTable := RestoreStatuses TRoot (ObjectTable st4)\<rparr>)))))"

subsection \<open>\<open>EditConfigValue\<close>\<close>

text \<open>
  A step of the editor ends in one of three ways: it overruns a buffer (\<open>Undefined\<close>: C
  gives the program no behaviour), it makes the function return FAILURE (\<open>Failed\<close>), or
  it gives a value.
\<close>

datatype 'a outcome = Undefined | Failed | Done 'a

text \<open>
  The loop meant to erase the newlines at the end of the text. It starts at the index
  of the terminator, found by the loop before it; a newline there is replaced by a
  terminator and the index goes down. (Below index 0 the source would read outside the
  buffer; the loop cannot get there from its start.)
\<close>

fun Edit_EraseNewlines :: "nat \<Rightarrow> string \<Rightarrow> string" where
  "Edit_EraseNewlines Inc2 MasterStream =
     (if c_at MasterStream Inc2 = NL
      then (case Inc2 of
              0 \<Rightarrow> take 0 MasterStream
            | Suc j \<Rightarrow> Edit_EraseNewlines j (take Inc2 MasterStream))
      else MasterStream)"

declare Edit_EraseNewlines.simps [simp del]

text \<open>
  One pass of the loop that looks for the object: the line at \<open>LineArm\<close> is copied into
  \<open>LineWorkerR\<close> (without a bound), and if it is the \<open>ObjectID\<close> line of the object,
  \<open>Worker\<close> is set from \<open>LineArm\<close>, the offsets inside the line after its leading blanks,
  and the length of the ID.
\<close>

definition Edit_Line ::
  "env \<Rightarrow> string \<Rightarrow> string \<Rightarrow> nat \<Rightarrow> nat option \<Rightarrow> nat option outcome" where
  "Edit_Line E MasterStream ID LineArm Worker =
     (let LineWorkerR = takeWhile (\<lambda>c. \<not> ends_line c) (drop LineArm MasterStream) in
      if length LineWorkerR \<ge> MAX_LINE_SIZE E then Undefined
      else
        let LineWorker = dropWhile is_blank LineWorkerR in
        if \<not> strncmp_eq LineWorker ''ObjectID'' then Done Worker
        else
          let Inc2 = length (takeWhile (\<lambda>c. c \<noteq> SP \<and> c \<noteq> TAB \<and> c \<noteq> CHR ''=''
                                         \<and> c \<noteq> NUL \<and> c \<noteq> NL) LineWorker);
              NumWhiteSpaces =
                (if c_at LineWorker Inc2 = CHR ''='' then 1
                 else length (takeWhile is_blank (drop Inc2 LineWorker)))
          in if ends_line (c_at LineWorker (NumWhiteSpaces + Inc2)) then Failed
             else if drop (NumWhiteSpaces + Inc2) LineWorker \<noteq> ID then Done Worker
             else Done (Some (LineArm + Inc2 + NumWhiteSpaces + length ID)))"

function Edit_FindID ::
  "env \<Rightarrow> string \<Rightarrow> string \<Rightarrow> nat \<Rightarrow> nat option \<Rightarrow> nat option outcome" where
  "Edit_FindID E MasterStream ID LineArm Worker =
     (case Edit_Line E MasterStream ID LineArm Worker of
        Undefined \<Rightarrow> Undefined
      | Failed \<Rightarrow> Failed
      | Done Worker' \<Rightarrow>
          (case NextLine (drop LineArm MasterStream) of
             None \<Rightarrow> Done Worker'
           | Some rest \<Rightarrow>
               Edit_FindID E MasterStream ID (length MasterStream - length rest) Worker'))"
  by pat_completeness auto
termination
proof (relation "measure (\<lambda>(E, M, ID, LineArm, Worker). length M - LineArm)", goal_cases)
  case 1
  show ?case by simp
next
  case (2 E M ID LineArm Worker x rest)
  from NextLine_shorter[OF 2(2)] show ?case by simp
qed

declare Edit_FindID.simps [simp del]

text \<open>
  The text cut at the attribute. \<open>Worker\<close> is where the search starts. The search for
  the attribute stops at the next \<open>ObjectID\<close> in the text (\<open>Stopper\<close>), so it reads the
  text \<open>Edit_Section\<close>; the byte before
  the place found must not be \<open>#\<close>. From the second byte of the place found, the bytes
  up to the separator are skipped (\<open>Skipped\<close>, with the first byte); the separator run is
  kept in \<open>WhiteSpace\<close>, a buffer of \<open>NumWhiteSpaces + 1\<close> bytes; the bytes up to the end
  of the line are skipped (\<open>OldValue\<close>); \<open>HalfTwo\<close> is the rest.
\<close>

record edit_parts =
  HalfOne :: string
  Skipped :: string
  NumWhiteSpaces :: nat
  WhiteSpace :: string
  OldValue :: string
  HalfTwo :: string

definition Edit_Section :: "string \<Rightarrow> nat \<Rightarrow> string" where
  "Edit_Section MasterStream Worker =
     (let tail = drop Worker MasterStream in
      case strstr tail ''ObjectID'' of None \<Rightarrow> tail | Some k \<Rightarrow> take k tail)"

definition Edit_Split :: "string \<Rightarrow> string \<Rightarrow> nat \<Rightarrow> edit_parts outcome" where
  "Edit_Split MasterStream Attribute Worker =
     (case strstr (Edit_Section MasterStream Worker) Attribute of
           None \<Rightarrow> Failed
         | Some a \<Rightarrow>
             let pos = Worker + a in
             if pos = 0 \<or> pos \<ge> length MasterStream then Undefined
             else if c_at MasterStream (pos - 1) = CHR ''#'' then Failed
             else
               let Worker1 = drop (pos + 1) MasterStream;
                   Inc = length (takeWhile (\<lambda>c. c \<noteq> SP \<and> c \<noteq> TAB \<and> c \<noteq> CHR ''=''
                                               \<and> c \<noteq> NL \<and> c \<noteq> NUL) Worker1)
               in if ends_line (c_at Worker1 Inc) then Failed
                  else
                    let Worker2 = drop Inc Worker1;
                        n = (if c_at Worker2 0 = CHR ''='' then 1
                             else length (takeWhile is_blank Worker2));
                        ws = takeWhile (\<lambda>c. c = CHR ''='' \<or> c = SP \<or> c = TAB) Worker2
                    in if length ws > n then Undefined
                       else
                         let Worker3 = drop (length ws) Worker2 in
                         Done \<lparr> HalfOne = take pos MasterStream,
                                Skipped = take (Suc Inc) (drop pos MasterStream),
                                NumWhiteSpaces = n,
                                WhiteSpace = ws,
                                OldValue = takeWhile (\<lambda>c. \<not> ends_line c) Worker3,
                                HalfTwo = dropWhile (\<lambda>c. \<not> ends_line c) Worker3 \<rparr>)"

text \<open>
  \<open>EditConfigValue\<close>: the file is read, the object and the attribute are found, and the
  file is written again as the first half, the attribute with the separator kept and
  the new value, and the second half. None when a step is \<open>Undefined\<close>.
  The C strings \<open>ObjectID\<close>, \<open>Attribute\<close> and \<open>Value\<close> hold no NUL byte.
\<close>

definition EditConfigValue ::
  "env \<Rightarrow> string \<Rightarrow> string \<Rightarrow> string \<Rightarrow> sys \<Rightarrow> (rStatus \<times> sys) option" where
  "EditConfigValue E ID Attribute Value st =
     (case ConfFile st of
        None \<Rightarrow> Some (FAILURE, report Err_StatFailed st)
      | Some bytes \<Rightarrow>
          if c_str bytes = [] then Some (FAILURE, st)
          else
            let MasterStream = Edit_EraseNewlines (length (c_str bytes)) (c_str bytes) in
            (case Edit_FindID E MasterStream ID 0 None of
               Undefined \<Rightarrow> None
             | Failed \<Rightarrow> Some (FAILURE, st)
             | Done None \<Rightarrow> Some (FAILURE, st)
             | Done (Some Worker) \<Rightarrow>
                 (case Edit_Split MasterStream Attribute Worker of
                    Undefined \<Rightarrow> None
                  | Failed \<Rightarrow> Some (FAILURE, st)
                  | Done parts \<Rightarrow>
                      let NewValue =
                            snprintf_s (length Attribute + NumWhiteSpaces parts + length Value + 1)
                              (Attribute @ WhiteSpace parts @ Value)
                      in Some (SUCCESS,
                           st\<lparr>ConfFile := Some (HalfOne parts @ NewValue @ HalfTwo parts)\<rparr>))))"

subsection \<open>Example configurations\<close>

text \<open>
  An environment with the sizes 2048 and 384 for \<open>MAX_LINE_SIZE\<close> and
  \<open>MAX_DESCRIPT_SIZE\<close>, the state of the subsystem at boot with a configuration file,
  and files used in the examples below.
\<close>

definition Example_env :: env where
  "Example_env =
     \<lparr> MAX_LINE_SIZE = 2048, MAX_DESCRIPT_SIZE = 384, USE_SHELL_BY_DEFAULT = True,
       CONSOLE_COLOR_YELLOW = [], CONSOLE_ENDCOLOR = [],
       SetBannerColor = (\<lambda>arg old. arg) \<rparr>"

definition Example_boot :: "string \<Rightarrow> sys" where
  "Example_boot conf =
     \<lparr> ObjectTable = [], PriorityAliasTree = [], RunlevelInheritance = [],
       Hostname = [], CurRunlevel = [], DisableCAD = True, BlankLogOnBoot = False,
       ShellEnabled = True, EnableLogging = True, AlignStatusReports = False,
       AutoMountOpts = [0, 0, 0, 0, 0], BannerText = [], BannerColor = [],
       ShowBanner = False, WasRunBefore = False, LastObject = None, CurObj = None,
       LineNum = 0, LongComment = False, ConfFile = Some conf, Files = [], Stdin = [],
       Log = [] \<rparr>"

definition unlines :: "string list \<Rightarrow> string" where
  "unlines ls = concat (map (\<lambda>l. l @ [NL]) ls)"


text \<open>The minimal file of the spec's scenario S1, its first word made longer.\<close>

definition Example_prefix_conf :: string where
  "Example_prefix_conf = unlines
     [''DefaultRunlevel default'',
      ''ObjectIDentifier svc'',
      ''ObjectDescription d'',
      ''ObjectStartCommand /bin/true'',
      ''ObjectStopCommand NONE'',
      ''ObjectStartPriority 1'',
      ''ObjectStopPriority 0'',
      ''ObjectRunlevels default'',
      ''ObjectEnabled true'']"



text \<open>Two inheritance pairs and one service; and a file with a fatal error (no \<open>ObjectEnabled\<close>).\<close>

definition Example_inherit_conf :: string where
  "Example_inherit_conf = unlines
     [''DefaultRunlevel default'',
      ''RunlevelInherits rescue default'',
      ''RunlevelInherits single rescue'',
      ''ObjectID svc'',
      ''ObjectDescription d'',
      ''ObjectStartCommand /bin/true'',
      ''ObjectStopCommand NONE'',
      ''ObjectStartPriority 1'',
      ''ObjectRunlevels default'',
      ''ObjectEnabled true'']"

definition Example_broken_conf :: string where
  "Example_broken_conf = unlines
     [''ObjectID svc'',
      ''ObjectDescription d'',
      ''ObjectStartCommand /bin/true'',
      ''ObjectRunlevels default'']"

text \<open>Two aliases, one of them for the priority 0.\<close>

definition Example_alias_conf :: string where
  "Example_alias_conf = unlines
     [''DefaultRunlevel default'',
      ''DefinePriority Services 5'',
      ''DefinePriority Zero 0'',
      ''ObjectID svc'',
      ''ObjectDescription d'',
      ''ObjectStartCommand /bin/true'',
      ''ObjectStopCommand NONE'',
      ''ObjectStopPriority Services'',
      ''ObjectRunlevels default'',
      ''ObjectEnabled true'']"





text \<open>
  Files for the editor. In the first the start command stands after two tabs, the
  reload command has no separator and the stop command has the separator \<open>=\<close> and no
  value. In the second the old start command was left in a comment.
\<close>

definition Example_edit_conf :: string where
  "Example_edit_conf = unlines
     [''DefaultRunlevel default'',
      ''ObjectID svc'',
      ''ObjectDescription d'',
      ''ObjectStartCommand'' @ [TAB, TAB] @ ''/bin/a'',
      ''ObjectReloadCommand'',
      ''ObjectStopCommand='',
      ''ObjectStartPriority 1'',
      ''ObjectRunlevels default'',
      ''ObjectEnabled true'']"

definition Example_comment_conf :: string where
  "Example_comment_conf = unlines
     [''DefaultRunlevel default'',
      ''ObjectID svc'',
      ''# ObjectStartCommand /bin/old'',
      ''ObjectStartCommand /bin/a'',
      ''ObjectDescription d'',
      ''ObjectStopCommand NONE'',
      ''ObjectStartPriority 1'',
      ''ObjectRunlevels default'',
      ''ObjectEnabled true'']"

text \<open>
  A configuration with equal priorities: \<open>a\<close> and \<open>b\<close> share both, \<open>c\<close> has none. And one
  in which \<open>a\<close> and \<open>b\<close> share a start priority that \<^verbatim>\<open>atoi\<close> turns into -1, the largest
  \<^verbatim>\<open>unsigned long\<close>.
\<close>

definition Example_ties_conf :: string where
  "Example_ties_conf = unlines
     [''DefaultRunlevel default'',
      ''ObjectID a'',
      ''ObjectDescription first'',
      ''ObjectStartCommand /bin/a'',
      ''ObjectStartPriority 3'',
      ''ObjectStopPriority 2'',
      ''ObjectRunlevels default'',
      ''ObjectEnabled true'',
      ''ObjectID b'',
      ''ObjectDescription second'',
      ''ObjectStartCommand /bin/b'',
      ''ObjectStartPriority 3'',
      ''ObjectStopPriority 2'',
      ''ObjectRunlevels default'',
      ''ObjectEnabled true'',
      ''ObjectID c'',
      ''ObjectDescription third'',
      ''ObjectStartCommand /bin/c'',
      ''ObjectRunlevels default'',
      ''ObjectEnabled true'']"

definition Example_wrap_conf :: string where
  "Example_wrap_conf = unlines
     [''DefaultRunlevel default'',
      ''ObjectID a'',
      ''ObjectDescription first'',
      ''ObjectStartCommand /bin/a'',
      ''ObjectStartPriority 4294967295'',
      ''ObjectRunlevels default'',
      ''ObjectEnabled true'',
      ''ObjectID b'',
      ''ObjectDescription second'',
      ''ObjectStartCommand /bin/b'',
      ''ObjectStartPriority 4294967295'',
      ''ObjectRunlevels default'',
      ''ObjectEnabled true'',
      ''ObjectID c'',
      ''ObjectDescription third'',
      ''ObjectStartCommand /bin/c'',
      ''ObjectRunlevels default'',
      ''ObjectEnabled true'']"




subsection \<open>The lines the parse loop reads\<close>



text \<open>
  The text of a line that the loop hands to \<open>LiveLine\<close>: after the blanks, and after a
  block-comment terminator and the blanks that follow it.
\<close>

definition LineText :: "string \<Rightarrow> string" where
  "LineText Worker =
     (let L = dropWhile is_blank Worker in
      if strncmp_eq L ''<!<'' then dropWhile is_blank (drop (length ''<!<'') L) else L)"



subsection \<open>Notions used by the properties\<close>

text \<open>
  What a pass over the table keeps of one priority field: the length of the table, which
  objects have priority 0, and that different priorities stay different; and no priority
  grows by more than \<open>k\<close>.
\<close>

definition keeps :: "nat \<Rightarrow> (ObjTable \<Rightarrow> nat) \<Rightarrow> ObjTable list \<Rightarrow> ObjTable list \<Rightarrow> bool" where
  "keeps k g T T' \<longleftrightarrow>
     length T' = length T \<and>
     (\<forall>i < length T. (g (T' ! i) = 0) = (g (T ! i) = 0)) \<and>
     (\<forall>i < length T. \<forall>j < length T. g (T ! i) \<noteq> g (T ! j) \<longrightarrow> g (T' ! i) \<noteq> g (T' ! j)) \<and>
     (\<forall>i < length T. g (T' ! i) \<le> g (T ! i) + k)"

text \<open>
  A reading of an object that does not depend on the fields written after the parse
  loop by \<open>EmulNoWait\<close> and \<open>ScanConfigIntegrity\<close>.
\<close>

definition settled :: "(ObjTable \<Rightarrow> 'a) \<Rightarrow> bool" where
  "settled f \<longleftrightarrow>
     (\<forall>ob v. f (ob\<lparr>ObjectDescription := v\<rparr>) = f ob) \<and>
     (\<forall>ob v. f (ob\<lparr>ObjectStartCommand := v\<rparr>) = f ob) \<and>
     (\<forall>ob v. f (ob\<lparr>Enabled := v\<rparr>) = f ob)"


definition extends :: "(ObjTable \<Rightarrow> 'a) \<Rightarrow> sys \<Rightarrow> sys \<Rightarrow> bool" where
  "extends g s s' \<longleftrightarrow>
     length (ObjectTable s) \<le> length (ObjectTable s') \<and>
     (\<forall>i < length (ObjectTable s). g (ObjectTable s' ! i) = g (ObjectTable s ! i))"

section \<open>Properties\<close>

lemma RLInheritance_Check_iff:
  "RLInheritance_Check RLI a b \<longleftrightarrow> (a, b) \<in> set RLI"
  by (induction RLI) auto

lemma CheckRunlevel_inherited_iff:
  "CheckRunlevel_inherited RLI R rls = 0 \<longleftrightarrow> \<not> (\<exists>r \<in> set rls. (R, r) \<in> set RLI)"
  by (induction rls) (auto simp: RLInheritance_Check_iff)

lemma CheckRunlevel_direct_iff:
  "CheckRunlevel_direct R v rls = 0 \<longleftrightarrow> R \<notin> set rls \<and> v = 0"
  by (induction rls) auto

text \<open>
  C5. Counting inheritance, \<open>ObjRL_CheckRunlevel\<close> reports a match (a value other than
  false) exactly when the runlevel is one of the object's runlevels or the stored
  inheritance list holds the pair of the runlevel and one of the object's runlevels.
  The list is read as stored, one step only: with the chain \<open>(R, S)\<close>, \<open>(S, r)\<close> of three
  different names and an object in \<open>r\<close> alone, \<open>R\<close> does not match.
\<close>

theorem ObjRL_CheckRunlevel_inherited_one_step:
  "(ObjRL_CheckRunlevel RLI R O' True \<noteq> 0 \<longleftrightarrow>
      R \<in> set (ObjectRunlevels O') \<or>
      (\<exists>r \<in> set (ObjectRunlevels O'). (R, r) \<in> set RLI))
   \<and> (R \<noteq> r \<and> S \<noteq> r \<and> R \<noteq> S \<longrightarrow>
      ObjRL_CheckRunlevel [(R, S), (S, r)] R (O'\<lparr>ObjectRunlevels := [r]\<rparr>) True = 0)"
proof
  have "ObjRL_CheckRunlevel RLI R O' True = 0 \<longleftrightarrow>
      \<not> (R \<in> set (ObjectRunlevels O') \<or> (\<exists>r \<in> set (ObjectRunlevels O'). (R, r) \<in> set RLI))"
    by (cases "ObjectRunlevels O' = []")
      (simp_all add: ObjRL_CheckRunlevel_def Let_def CheckRunlevel_direct_iff
        CheckRunlevel_inherited_iff)
  then show "ObjRL_CheckRunlevel RLI R O' True \<noteq> 0 \<longleftrightarrow>
      R \<in> set (ObjectRunlevels O') \<or> (\<exists>r \<in> set (ObjectRunlevels O'). (R, r) \<in> set RLI)"
    by (simp del: neq0_conv)
  show "R \<noteq> r \<and> S \<noteq> r \<and> R \<noteq> S \<longrightarrow>
      ObjRL_CheckRunlevel [(R, S), (S, r)] R (O'\<lparr>ObjectRunlevels := [r]\<rparr>) True = 0"
    by (auto simp: ObjRL_CheckRunlevel_def)
qed

theorem ObjRL_CheckRunlevel_inherited_one_step_witness:
  "ObjRL_CheckRunlevel [(''rescue'', ''default'')] ''rescue''
     ((NewObject Example_env ''svc'')\<lparr>ObjectRunlevels := [''default'']\<rparr>) True \<noteq> 0
   \<and> ObjRL_CheckRunlevel [(''rescue'', ''single''), (''single'', ''default'')] ''rescue''
     ((NewObject Example_env ''svc'')\<lparr>ObjectRunlevels := [''default'']\<rparr>) True = 0"
  using ObjRL_CheckRunlevel_inherited_one_step
    [of "[(''rescue'', ''default'')]" "''rescue''"
        "(NewObject Example_env ''svc'')\<lparr>ObjectRunlevels := [''default'']\<rparr>"
        "''default''" "''single''"]
  by simp

subsection \<open>Lookup by priority\<close>





subsection \<open>The keyword ladder\<close>

lemma strncmp_eq_iff: "strncmp_eq s k \<longleftrightarrow> (\<exists>rest. s = k @ rest)"
  unfolding strncmp_eq_def
  by (metis append_eq_conv_conj append_take_drop_id)

lemma Dispatch_keyword: "Dispatch (Keyword a @ rest) = Some a"
  by (cases a) (simp_all add: Dispatch_def Ladder_def strncmp_eq_def)

lemma Dispatch_Some_prefix: "Dispatch W = Some a \<Longrightarrow> strncmp_eq W (Keyword a)"
  by (auto simp: Dispatch_def find_Some_iff)

text \<open>
  C4, as the code has it. A keyword is recognised at the first byte of the line that is
  not blank by comparing as many bytes as the keyword has: the line is dispatched to an
  attribute exactly when it starts with the attribute's keyword, whatever bytes follow.
  A first word that is longer than the keyword and starts with it is dispatched as the
  keyword.
\<close>

theorem Dispatch_by_prefix:
  "Dispatch W = Some a \<longleftrightarrow> (\<exists>rest. W = Keyword a @ rest)"
proof
  assume "Dispatch W = Some a"
  then have "strncmp_eq W (Keyword a)" by (rule Dispatch_Some_prefix)
  then show "\<exists>rest. W = Keyword a @ rest" by (simp add: strncmp_eq_iff)
next
  assume "\<exists>rest. W = Keyword a @ rest"
  then show "Dispatch W = Some a" by (auto simp: Dispatch_keyword)
qed

text \<open>
  C4 as stated fails: the line \<open>ObjectIDentifier svc\<close> is dispatched as \<open>ObjectID\<close>, and
  the file \<open>Example_prefix_conf\<close>, which has no other \<open>ObjectID\<close> line, is parsed with
  SUCCESS into a table with the object \<open>svc\<close>.
\<close>

theorem Dispatch_longer_word_counterexample:
  "Dispatch ''ObjectIDentifier svc'' = Some A_ObjectID \<and>
   (case InitConfig Example_env (Example_boot Example_prefix_conf) of
      None \<Rightarrow> False
    | Some (r, st) \<Rightarrow> r = SUCCESS \<and> map ObjectID (ObjectTable st) = [''svc''])"
  by code_simp

subsection \<open>Reload: the rollback\<close>

text \<open>
  C1 at a failing input. \<open>Example_inherit_conf\<close> is loaded at boot: the inheritance list
  holds two pairs, and the runlevel \<open>rescue\<close> matches the service by inheritance. The
  file is then replaced by \<open>Example_broken_conf\<close> and \<open>ReloadConfig\<close> is called. It
  returns FAILURE and restores the object table and the current runlevel, but of the
  inheritance list only the last pair is back, and \<open>rescue\<close> no longer matches the
  service.
\<close>

theorem ReloadConfig_rollback_loses_inheritance:
  "(case InitConfig Example_env (Example_boot Example_inherit_conf) of
      None \<Rightarrow> False
    | Some (r, st) \<Rightarrow>
        r = SUCCESS \<and>
        RunlevelInheritance st = [(''rescue'', ''default''), (''single'', ''rescue'')] \<and>
        ObjRL_CheckRunlevel (RunlevelInheritance st) ''rescue'' (ObjectTable st ! 0) True = 2 \<and>
        (case ReloadConfig Example_env (st\<lparr>ConfFile := Some Example_broken_conf\<rparr>) of
           None \<Rightarrow> False
         | Some (r', st') \<Rightarrow>
             r' = FAILURE \<and>
             ObjectTable st' = ObjectTable st \<and>
             CurRunlevel st' = CurRunlevel st \<and>
             RunlevelInheritance st' = [(''single'', ''rescue'')] \<and>
             ObjRL_CheckRunlevel (RunlevelInheritance st') ''rescue'' (ObjectTable st' ! 0) True
               = 0))"
  by code_simp

subsection \<open>Reload: the statuses carried over\<close>










subsection \<open>After the parse loop\<close>

text \<open>
  What \<open>EmulNoWait\<close> and \<open>ScanConfigIntegrity\<close> leave as it is in every object: a reading
  that is \<open>settled\<close>. The table that \<open>InitConfig\<close> publishes with SUCCESS or WARNING is,
  in these readings, the table after the loops for equal priorities.
\<close>

lemma settled_update:
  assumes "f (h (T ! i)) = f (T ! i)"
  shows "map f (T[i := h (T ! i)]) = map f T"
proof (cases "i < length T")
  case True
  have "map f (T[i := h (T ! i)]) = (map f T)[i := map f T ! i]"
    using True assms by (simp add: map_update)
  then show ?thesis by simp
next
  case False
  then have "T[i := h (T ! i)] = T" by (simp add: list_update_beyond)
  then show ?thesis by simp
qed

lemma map_eq_nth:
  assumes "map f T' = map f T"
  shows "length T' = length T" and "i < length T \<Longrightarrow> f (T' ! i) = f (T ! i)"
proof -
  show l: "length T' = length T"
    using assms by (rule map_eq_imp_length_eq)
  assume i: "i < length T"
  have "map f T' ! i = map f T ! i" using assms by simp
  with i l show "f (T' ! i) = f (T ! i)" by simp
qed

lemma Scan_checks_settled:
  assumes "settled f"
  shows "map f (ObjectTable (fst (Scan_Description E i sr))) = map f (ObjectTable (fst sr))"
    "map f (ObjectTable (fst (Scan_Commands i sr))) = map f (ObjectTable (fst sr))"
    "map f (ObjectTable (fst (Scan_StartCommand i sr))) = map f (ObjectTable (fst sr))"
    "map f (ObjectTable (fst (Scan_Runlevels i sr))) = map f (ObjectTable (fst sr))"
    "map f (ObjectTable (fst (Scan_Enabled i sr))) = map f (ObjectTable (fst sr))"
    "map f (ObjectTable (fst (Scan_HaltPID i sr))) = map f (ObjectTable (fst sr))"
    "map f (ObjectTable (fst (Scan_Duplicate i j sr))) = map f (ObjectTable (fst sr))"
  using assms
  by (cases sr; simp add: Scan_Description_def Scan_Commands_def Scan_StartCommand_def
      Scan_Runlevels_def Scan_Enabled_def Scan_HaltPID_def Scan_Duplicate_def Let_def
      ModObj_def report_def settled_update settled_def)+

lemma fold_settled:
  assumes "\<And>x sr. map f (ObjectTable (fst (h x sr))) = map f (ObjectTable (fst sr))"
  shows "map f (ObjectTable (fst (fold h xs sr))) = map f (ObjectTable (fst sr))"
  by (induction xs arbitrary: sr) (simp_all add: assms)

lemma Scan_Object_settled:
  "settled f \<Longrightarrow>
   map f (ObjectTable (fst (Scan_Object E i sr))) = map f (ObjectTable (fst sr))"
  unfolding Scan_Object_def
  by (simp add: fold_settled Scan_checks_settled)

lemma Scan_Objects_settled:
  assumes "settled f"
  shows "map f (ObjectTable (snd (Scan_Objects E st))) = map f (ObjectTable st)"
proof -
  have "map f (ObjectTable (fst (fold (Scan_Object E) [0..<length (ObjectTable st)]
          (st, SUCCESS)))) = map f (ObjectTable st)"
    using fold_settled[of f "Scan_Object E" "[0..<length (ObjectTable st)]" "(st, SUCCESS)"]
    by (simp add: Scan_Object_settled[OF assms])
  then show ?thesis
    by (simp add: Scan_Objects_def split_beta)
qed

lemma Scan_Prompt_table:
  "Scan_Prompt E st = Some st' \<Longrightarrow> ObjectTable st' = ObjectTable st"
proof (induction E st rule: Scan_Prompt.induct)
  case (1 E st)
  from "1.prems" obtain NewRL rest where f: "fgets (MAX_DESCRIPT_SIZE E) (Stdin st) = Some (NewRL, rest)"
    by (cases "fgets (MAX_DESCRIPT_SIZE E) (Stdin st)") (auto simp: Scan_Prompt.simps)
  let ?st1 = "(report Out_RunlevelPrompt st)\<lparr>Stdin := rest\<rparr>"
  from "1.prems" f have c: "\<not> (NewRL = [] \<or> length rest \<ge> length (Stdin st))"
    "c_at NewRL 0 \<noteq> NL"
    by (auto simp: Scan_Prompt.simps split: if_splits)
  show ?case
  proof (cases "ObjRL_ValidRunlevel (RunlevelInheritance ?st1) (ObjectTable ?st1) (butlast NewRL)")
    case True
    with "1.prems" f c show ?thesis
      by (auto simp: Scan_Prompt.simps Let_def report_def)
  next
    case False
    with "1.prems" f c have "Scan_Prompt E (report Out_RunlevelNotFound ?st1) = Some st'"
      by (simp add: Scan_Prompt.simps Let_def)
    from "1.IH"[OF f refl c(1) c(2) refl refl False this]
    have "ObjectTable st' = ObjectTable (report Out_RunlevelNotFound ?st1)" .
    then show ?thesis by (simp add: report_def)
  qed
qed

lemma ScanConfigIntegrity_settled:
  assumes "settled f" and "ScanConfigIntegrity E st = Some (r, st')"
  shows "map f (ObjectTable st') = map f (ObjectTable st)"
proof -
  have obj: "map f (ObjectTable s') = map f (ObjectTable s)"
    if "Scan_Objects E s = (r', s')" for s s' r'
    using Scan_Objects_settled[OF assms(1), of E s] that by simp
  from assms(2) show ?thesis
    by (auto simp: ScanConfigIntegrity_def Let_def report_def
        split: if_splits dest!: obj Scan_Prompt_table)
qed

lemma EmulNoWait_settled:
  "settled f \<Longrightarrow> EmulNoWait E T = Some T' \<Longrightarrow> map f T' = map f T"
proof (induction T arbitrary: T')
  case Nil
  then show ?case by simp
next
  case (Cons ob T)
  from Cons.prems obtain ob' T2 where o: "EmulNoWait_obj E ob = Some ob'"
    and t: "EmulNoWait E T = Some T2" and T': "T' = ob' # T2"
    by (auto split: option.splits)
  from o Cons.prems(1) have "f ob' = f ob"
    by (auto simp: EmulNoWait_obj_def settled_def split: if_splits list.splits)
  with Cons.IH[OF Cons.prems(1) t] T' show ?case by simp
qed

lemma InitConfig_Finish_settled:
  assumes "settled f" and "InitConfig_Finish E cs st1 = Some (r, st')" and "r \<noteq> FAILURE"
  shows "map f (ObjectTable st') = map f (DedupPriorities (ObjectTable st1))"
proof -
  from assms(2) obtain T where e: "EmulNoWait E (DedupPriorities (ObjectTable st1)) = Some T"
    by (auto simp: InitConfig_Finish_def split: if_splits option.splits)
  let ?st2 = "((if LongComment st1 then report Warn_NoTerminator else id)
                 (st1\<lparr>ObjectTable := T\<rparr>))\<lparr>PriorityAliasTree := []\<rparr>"
  have t2: "ObjectTable ?st2 = T" by (simp add: report_def)
  from assms(2,3) e obtain st3 where s: "ScanConfigIntegrity E ?st2 = Some (r, st3)"
    and st': "ObjectTable st' = ObjectTable st3"
    by (auto simp: InitConfig_Finish_def Let_def report_def
        split: if_splits option.splits rStatus.splits)
  from ScanConfigIntegrity_settled[OF assms(1) s] t2 st' EmulNoWait_settled[OF assms(1) e]
  show ?thesis by simp
qed

lemma InitConfig_Loop_of_InitConfig:
  assumes "InitConfig E st = Some (r, st')" and "r \<noteq> FAILURE"
  shows "\<exists>bytes st1. ConfFile st = Some bytes \<and>
           InitConfig_Loop E (c_str bytes) (InitLocals st) = Some st1 \<and>
           InitConfig_Finish E (c_str bytes) st1 = Some (r, st')"
  using assms
  by (auto simp: InitConfig_def Let_def split: option.splits if_splits)

subsection \<open>The loops for equal priorities\<close>

text \<open>The loops that move equal priorities apart, read pointwise.\<close>

lemma Dedup_shift_prefix:
  assumes "c < length T" and "k \<le> length T"
  shows "length (fold (\<lambda>t T. if get (T ! t) \<ge> get (T ! c) \<and> c \<noteq> t \<and> t \<noteq> w
                  then T[t := put (ulong_inc (get (T ! t))) (T ! t)] else T) [0..<k] T) = length T
       \<and> (\<forall>i < length T.
            fold (\<lambda>t T. if get (T ! t) \<ge> get (T ! c) \<and> c \<noteq> t \<and> t \<noteq> w
                  then T[t := put (ulong_inc (get (T ! t))) (T ! t)] else T) [0..<k] T ! i
            = (if i < k \<and> get (T ! i) \<ge> get (T ! c) \<and> c \<noteq> i \<and> i \<noteq> w
               then put (ulong_inc (get (T ! i))) (T ! i) else T ! i))"
  using assms(2)
proof (induction k)
  case 0
  then show ?case by simp
next
  case (Suc k)
  let ?F = "\<lambda>t T. if get (T ! t) \<ge> get (T ! c) \<and> c \<noteq> t \<and> t \<noteq> w
                  then T[t := put (ulong_inc (get (T ! t))) (T ! t)] else T"
  let ?R = "fold ?F [0..<k] T"
  from Suc have len: "length ?R = length T"
    and nth: "\<And>i. i < length T \<Longrightarrow> ?R ! i =
        (if i < k \<and> get (T ! i) \<ge> get (T ! c) \<and> c \<noteq> i \<and> i \<noteq> w
         then put (ulong_inc (get (T ! i))) (T ! i) else T ! i)"
    by simp_all
  have k: "k < length T" using Suc.prems by simp
  have Rk: "?R ! k = T ! k" using nth[OF k] by simp
  have Rc: "?R ! c = T ! c" using nth[OF assms(1)] by simp
  have step: "fold ?F [0..<Suc k] T = ?F k ?R" by simp
  show ?case
  proof (intro conjI allI impI)
    show "length (fold ?F [0..<Suc k] T) = length T"
      unfolding step using len by simp
  next
    fix i assume i: "i < length T"
    show "fold ?F [0..<Suc k] T ! i =
        (if i < Suc k \<and> get (T ! i) \<ge> get (T ! c) \<and> c \<noteq> i \<and> i \<noteq> w
         then put (ulong_inc (get (T ! i))) (T ! i) else T ! i)"
    proof (cases "i = k")
      case True
      then show ?thesis unfolding step using Rk Rc len k by simp
    next
      case False
      then show ?thesis unfolding step using Rk Rc len i nth[OF i] by (auto simp: less_Suc_eq)
    qed
  qed
qed

lemma Dedup_shift_nth:
  assumes "c < length T"
  shows "length (Dedup_shift get put w c T) = length T"
    and "i < length T \<Longrightarrow> Dedup_shift get put w c T ! i
            = (if get (T ! i) \<ge> get (T ! c) \<and> c \<noteq> i \<and> i \<noteq> w
               then put (ulong_inc (get (T ! i))) (T ! i) else T ! i)"
  using Dedup_shift_prefix[OF assms, of "length T" get w put]
  unfolding Dedup_shift_def by simp_all

lemma Dedup_pair_length:
  "c < length T \<Longrightarrow> length (Dedup_pair get put w c T) = length T"
  by (simp add: Dedup_pair_def Dedup_shift_nth(1))

lemma Dedup_pair_nth:
  assumes "c < length T" and "i < length T"
  shows "Dedup_pair get put w c T ! i =
           (if get (T ! w) \<noteq> 0 \<and> w \<noteq> c \<and> get (T ! c) = get (T ! w)
            then (if i = c then put (ulong_inc (get (T ! c))) (T ! c)
                  else if get (T ! i) \<ge> get (put (ulong_inc (get (T ! c))) (T ! c)) \<and> i \<noteq> w
                       then put (ulong_inc (get (T ! i))) (T ! i) else T ! i)
            else T ! i)"
proof (cases "get (T ! w) \<noteq> 0 \<and> w \<noteq> c \<and> get (T ! c) = get (T ! w)")
  case False
  then show ?thesis by (auto simp: Dedup_pair_def)
next
  case True
  let ?T = "T[c := put (ulong_inc (get (T ! c))) (T ! c)]"
  have c: "c < length ?T" and i: "i < length ?T" using assms by simp_all
  from Dedup_shift_nth(2)[OF c i, of get put w] True assms show ?thesis
    by (auto simp: Dedup_pair_def)
qed

lemma Dedup_pair_other:
  assumes "\<And>v ob. g (put v ob) = g ob" and "c < length T" and "i < length T"
  shows "g (Dedup_pair get put w c T ! i) = g (T ! i)"
  using assms by (simp add: Dedup_pair_nth)

subsection \<open>Equal priorities\<close>

text \<open>What the loops keep of the priorities, when no priority wraps around.\<close>

lemma ulong_inc_below: "n + 1 < 2 ^ 64 \<Longrightarrow> ulong_inc n = n + 1"
  by (simp add: ulong_inc_def)

lemma keeps_refl: "keeps 0 g T T"
  by (simp add: keeps_def)

lemma keeps_trans: "keeps a g T T' \<Longrightarrow> keeps b g T' T'' \<Longrightarrow> keeps (a + b) g T T''"
  unfolding keeps_def by (auto intro: order_trans)

lemma keeps_length: "keeps k g T T' \<Longrightarrow> length T' = length T"
  by (simp add: keeps_def)

lemma keeps_bound:
  "keeps k g T T' \<Longrightarrow> i < length T \<Longrightarrow> g (T' ! i) \<le> g (T ! i) + k"
  by (simp add: keeps_def)

lemma Dedup_pair_keeps:
  assumes gp: "\<And>v ob. get (put v ob) = v" and "w < length T" and "c < length T"
    and b: "\<forall>i < length T. get (T ! i) + 1 < 2 ^ 64"
  shows "keeps 1 get T (Dedup_pair get put w c T)"
proof -
  have inc: "ulong_inc (get (T ! i)) = get (T ! i) + 1" if "i < length T" for i
    using b that by (simp add: ulong_inc_below)
  show ?thesis
    unfolding keeps_def
  proof (intro conjI allI impI)
    show "length (Dedup_pair get put w c T) = length T"
      using assms(3) by (rule Dedup_pair_length)
  next
    fix i assume "i < length T"
    then show "(get (Dedup_pair get put w c T ! i) = 0) = (get (T ! i) = 0)"
      using assms(2,3) by (auto simp: Dedup_pair_nth gp inc)
  next
    fix i j assume "i < length T" "j < length T" "get (T ! i) \<noteq> get (T ! j)"
    then show "get (Dedup_pair get put w c T ! i) \<noteq> get (Dedup_pair get put w c T ! j)"
      using assms(2,3) by (auto simp: Dedup_pair_nth gp inc)
  next
    fix i assume "i < length T"
    then show "get (Dedup_pair get put w c T ! i) \<le> get (T ! i) + 1"
      using assms(2,3) by (auto simp: Dedup_pair_nth gp inc)
  qed
qed

lemma Dedup_pair_keeps_other:
  assumes "\<And>v ob. g (put v ob) = g ob" and "c < length T"
  shows "keeps 0 g T (Dedup_pair get put w c T)"
  unfolding keeps_def
  using assms Dedup_pair_other[of g put c T _ get w] by (simp add: Dedup_pair_length)

lemma Dedup_pair_apart:
  assumes gp: "\<And>v ob. get (put v ob) = v" and "w < length T" and "c < length T"
    and "w \<noteq> c" and "get (T ! w) \<noteq> 0"
    and b: "\<forall>i < length T. get (T ! i) + 1 < 2 ^ 64"
  shows "get (Dedup_pair get put w c T ! c) \<noteq> get (Dedup_pair get put w c T ! w)"
proof -
  have inc: "ulong_inc (get (T ! i)) = get (T ! i) + 1" if "i < length T" for i
    using b that by (simp add: ulong_inc_below)
  show ?thesis
    using assms(2-5) by (auto simp: Dedup_pair_nth gp inc)
qed

lemma Dedup_cur_keeps:
  assumes "g = ObjectStartPriority \<or> g = ObjectStopPriority"
    and "w < length T" and "c < length T"
    and b: "\<forall>i < length T. g (T ! i) + 1 < 2 ^ 64"
  shows "keeps 1 g T (Dedup_cur w c T)"
proof -
  let ?T1 = "Dedup_pair ObjectStartPriority (\<lambda>n ob. ob\<lparr>ObjectStartPriority := n\<rparr>) w c T"
  have l1: "length ?T1 = length T" using assms(3) by (rule Dedup_pair_length)
  from assms(1) show ?thesis
  proof
    assume g: "g = ObjectStartPriority"
    have "keeps 1 g T ?T1" unfolding g by (rule Dedup_pair_keeps) (use assms g in simp_all)
    moreover have "keeps 0 g ?T1 (Dedup_cur w c T)"
      unfolding g Dedup_cur_def by (rule Dedup_pair_keeps_other) (use assms l1 in simp_all)
    ultimately have "keeps (1 + 0) g T (Dedup_cur w c T)" by (rule keeps_trans)
    then show ?thesis by simp
  next
    assume g: "g = ObjectStopPriority"
    have k0: "keeps 0 g T ?T1" unfolding g by (rule Dedup_pair_keeps_other) (use assms in simp_all)
    have b1: "\<forall>i < length ?T1. g (?T1 ! i) + 1 < 2 ^ 64"
      using keeps_bound[OF k0] b l1 by fastforce
    have "keeps 1 g ?T1 (Dedup_cur w c T)"
      unfolding g Dedup_cur_def by (rule Dedup_pair_keeps) (use assms l1 b1 g in simp_all)
    with k0 have "keeps (0 + 1) g T (Dedup_cur w c T)" by (rule keeps_trans)
    then show ?thesis by simp
  qed
qed

lemma Dedup_cur_apart:
  assumes "g = ObjectStartPriority \<or> g = ObjectStopPriority"
    and "w < length T" and "c < length T" and "w \<noteq> c" and "g (T ! w) \<noteq> 0"
    and b: "\<forall>i < length T. g (T ! i) + 1 < 2 ^ 64"
  shows "g (Dedup_cur w c T ! c) \<noteq> g (Dedup_cur w c T ! w)"
proof -
  let ?T1 = "Dedup_pair ObjectStartPriority (\<lambda>n ob. ob\<lparr>ObjectStartPriority := n\<rparr>) w c T"
  have l1: "length ?T1 = length T" using assms(3) by (rule Dedup_pair_length)
  from assms(1) show ?thesis
  proof
    assume g: "g = ObjectStartPriority"
    have "g (?T1 ! c) \<noteq> g (?T1 ! w)"
      unfolding g by (rule Dedup_pair_apart) (use assms g in simp_all)
    moreover have "g (Dedup_cur w c T ! i) = g (?T1 ! i)" if "i < length T" for i
      unfolding g Dedup_cur_def by (rule Dedup_pair_other) (use assms l1 that in simp_all)
    ultimately show ?thesis using assms(2,3) by simp
  next
    assume g: "g = ObjectStopPriority"
    have o: "g (?T1 ! i) = g (T ! i)" if "i < length T" for i
      unfolding g by (rule Dedup_pair_other) (use assms that in simp_all)
    with assms(2,5) have "g (?T1 ! w) \<noteq> 0" by simp
    moreover have "\<forall>i < length ?T1. g (?T1 ! i) + 1 < 2 ^ 64"
      using o b l1 by simp
    ultimately show ?thesis
      unfolding g Dedup_cur_def by (intro Dedup_pair_apart) (use assms l1 g in simp_all)
  qed
qed

lemma Dedup_worker_prefix:
  assumes g: "g = ObjectStartPriority \<or> g = ObjectStopPriority"
    and w: "w < length T" and k: "k \<le> length T"
    and b: "\<forall>i < length T. g (T ! i) + k < 2 ^ 64"
  shows "keeps k g T (fold (Dedup_cur w) [0..<k] T) \<and>
         (g (T ! w) \<noteq> 0 \<longrightarrow>
            (\<forall>c < k. c \<noteq> w \<longrightarrow> g (fold (Dedup_cur w) [0..<k] T ! c)
                                  \<noteq> g (fold (Dedup_cur w) [0..<k] T ! w)))"
  using k b
proof (induction k)
  case 0
  then show ?case by (simp add: keeps_refl)
next
  case (Suc k)
  let ?R = "fold (Dedup_cur w) [0..<k] T"
  let ?R' = "Dedup_cur w k ?R"
  have bk: "\<forall>i < length T. g (T ! i) + k < 2 ^ 64"
    using Suc.prems(2) by fastforce
  from Suc.IH[OF _ bk] Suc.prems(1) have kR: "keeps k g T ?R"
    and ap: "g (T ! w) \<noteq> 0 \<Longrightarrow> \<forall>c < k. c \<noteq> w \<longrightarrow> g (?R ! c) \<noteq> g (?R ! w)"
    by simp_all
  have len: "length ?R = length T" using kR by (rule keeps_length)
  have kl: "k < length ?R" and wl: "w < length ?R" using Suc.prems w len by simp_all
  have bR: "\<forall>i < length ?R. g (?R ! i) + 1 < 2 ^ 64"
  proof (intro allI impI)
    fix i assume "i < length ?R"
    then have i: "i < length T" using len by simp
    from keeps_bound[OF kR i] Suc.prems(2) i show "g (?R ! i) + 1 < 2 ^ 64" by fastforce
  qed
  have step: "fold (Dedup_cur w) [0..<Suc k] T = ?R'" by simp
  have kR': "keeps 1 g ?R ?R'" by (rule Dedup_cur_keeps[OF g wl kl bR])
  show ?case
    unfolding step
  proof (intro conjI impI allI)
    from keeps_trans[OF kR kR'] show "keeps (Suc k) g T ?R'" by simp
  next
    fix c assume nz: "g (T ! w) \<noteq> 0" and c: "c < Suc k" and cw: "c \<noteq> w"
    have nzR: "g (?R ! w) \<noteq> 0" using kR nz w by (simp add: keeps_def)
    show "g (?R' ! c) \<noteq> g (?R' ! w)"
    proof (cases "c = k")
      case True
      with Dedup_cur_apart[OF g wl kl _ nzR bR] cw show ?thesis by auto
    next
      case False
      with c have ck: "c < k" by simp
      with ap[OF nz] cw have "g (?R ! c) \<noteq> g (?R ! w)" by simp
      moreover have "c < length ?R" using ck kl by simp
      ultimately show ?thesis using kR' wl by (simp add: keeps_def)
    qed
  qed
qed

lemma Dedup_worker_keeps:
  assumes "g = ObjectStartPriority \<or> g = ObjectStopPriority" and "w < length T"
    and "\<forall>i < length T. g (T ! i) + length T < 2 ^ 64"
  shows "keeps (length T) g T (Dedup_worker w T)"
  using Dedup_worker_prefix[OF assms(1,2), of "length T"] assms(3) by (simp add: Dedup_worker_def)

lemma Dedup_worker_apart:
  assumes "g = ObjectStartPriority \<or> g = ObjectStopPriority" and "w < length T"
    and "\<forall>i < length T. g (T ! i) + length T < 2 ^ 64"
    and "g (T ! w) \<noteq> 0" and "c < length T" and "c \<noteq> w"
  shows "g (Dedup_worker w T ! c) \<noteq> g (Dedup_worker w T ! w)"
  using Dedup_worker_prefix[OF assms(1,2), of "length T"] assms(3-)
  by (simp add: Dedup_worker_def)

lemma DedupPriorities_prefix:
  assumes g: "g = ObjectStartPriority \<or> g = ObjectStopPriority" and k: "k \<le> length T"
    and b: "\<forall>i < length T. g (T ! i) + k * length T < 2 ^ 64"
  shows "keeps (k * length T) g T (fold Dedup_worker [0..<k] T) \<and>
         (\<forall>w < k. g (fold Dedup_worker [0..<k] T ! w) \<noteq> 0 \<longrightarrow>
            (\<forall>c < length T. c \<noteq> w \<longrightarrow> g (fold Dedup_worker [0..<k] T ! c)
                                         \<noteq> g (fold Dedup_worker [0..<k] T ! w)))"
  using k b
proof (induction k)
  case 0
  then show ?case by (simp add: keeps_refl)
next
  case (Suc k)
  let ?R = "fold Dedup_worker [0..<k] T"
  let ?R' = "Dedup_worker k ?R"
  have bk: "\<forall>i < length T. g (T ! i) + k * length T < 2 ^ 64"
    using Suc.prems(2) by fastforce
  from Suc.IH[OF _ bk] Suc.prems(1) have kR: "keeps (k * length T) g T ?R"
    and ap: "\<And>w c. w < k \<Longrightarrow> g (?R ! w) \<noteq> 0 \<Longrightarrow> c < length T \<Longrightarrow> c \<noteq> w \<Longrightarrow>
               g (?R ! c) \<noteq> g (?R ! w)"
    by simp_all
  have len: "length ?R = length T" using kR by (rule keeps_length)
  have kl: "k < length ?R" using Suc.prems len by simp
  have bR: "\<forall>i < length ?R. g (?R ! i) + length ?R < 2 ^ 64"
  proof (intro allI impI)
    fix i assume "i < length ?R"
    then have i: "i < length T" using len by simp
    from keeps_bound[OF kR i] Suc.prems(2) i len show "g (?R ! i) + length ?R < 2 ^ 64"
      by fastforce
  qed
  have step: "fold Dedup_worker [0..<Suc k] T = ?R'" by simp
  have kR': "keeps (length ?R) g ?R ?R'" by (rule Dedup_worker_keeps[OF g kl bR])
  show ?case
    unfolding step
  proof (intro conjI impI allI)
    from keeps_trans[OF kR kR'] len show "keeps (Suc k * length T) g T ?R'"
      by (simp add: add.commute)
  next
    fix w c assume w: "w < Suc k" and nz: "g (?R' ! w) \<noteq> 0" and c: "c < length T" and cw: "c \<noteq> w"
    have wl: "w < length ?R" using w kl by simp
    have cl: "c < length ?R" using c len by simp
    have nzR: "g (?R ! w) \<noteq> 0" using kR' nz wl by (simp add: keeps_def)
    show "g (?R' ! c) \<noteq> g (?R' ! w)"
    proof (cases "w = k")
      case True
      with Dedup_worker_apart[OF g kl bR _ cl] nzR cw show ?thesis by simp
    next
      case False
      with w have "w < k" by simp
      from ap[OF this nzR c cw] kR' wl cl show ?thesis by (simp add: keeps_def)
    qed
  qed
qed

lemma DedupPriorities_unique:
  assumes g: "g = ObjectStartPriority \<or> g = ObjectStopPriority"
    and b: "\<forall>i < length T. g (T ! i) + length T * length T < 2 ^ 64"
  shows "length (DedupPriorities T) = length T"
    and "i < length T \<Longrightarrow> (g (DedupPriorities T ! i) = 0) = (g (T ! i) = 0)"
    and "i < length T \<Longrightarrow> j < length T \<Longrightarrow> i \<noteq> j \<Longrightarrow> g (DedupPriorities T ! i) \<noteq> 0 \<Longrightarrow>
           g (DedupPriorities T ! i) \<noteq> g (DedupPriorities T ! j)"
proof -
  from DedupPriorities_prefix[OF g, of "length T" T] b
  have k: "keeps (length T * length T) g T (DedupPriorities T)"
    and a: "\<And>w c. w < length T \<Longrightarrow> g (DedupPriorities T ! w) \<noteq> 0 \<Longrightarrow> c < length T \<Longrightarrow>
              c \<noteq> w \<Longrightarrow> g (DedupPriorities T ! c) \<noteq> g (DedupPriorities T ! w)"
    by (simp_all add: DedupPriorities_def)
  show "length (DedupPriorities T) = length T" using k by (rule keeps_length)
  show "i < length T \<Longrightarrow> (g (DedupPriorities T ! i) = 0) = (g (T ! i) = 0)"
    using k by (simp add: keeps_def)
  show "i < length T \<Longrightarrow> j < length T \<Longrightarrow> i \<noteq> j \<Longrightarrow> g (DedupPriorities T ! i) \<noteq> 0 \<Longrightarrow>
           g (DedupPriorities T ! i) \<noteq> g (DedupPriorities T ! j)"
    using a[of i j] by auto
qed

lemma settled_priorities: "settled ObjectStartPriority" "settled ObjectStopPriority"
  by (simp_all add: settled_def)

text \<open>
  C2, as the code has it. The priorities are \<^verbatim>\<open>unsigned long\<close> and the loops count with
  \<^verbatim>\<open>++\<close>. Let the parse loop have built a table of \<open>n\<close> objects in which every start and
  stop priority is below \<open>2 ^ 64 - n * n\<close>. When \<open>InitConfig\<close> then returns SUCCESS or
  WARNING, the table it leaves has the same \<open>n\<close> objects, no two different objects of it
  have the same start priority other than 0, nor the same stop priority other than 0, and
  every object whose priority was 0 after the parse loop (none declared, or 0 declared)
  still has priority 0.
\<close>

theorem InitConfig_priorities_unique:
  assumes "InitConfig E st = Some (r, st')" and "r = SUCCESS \<or> r = WARNING"
    and "ConfFile st = Some bytes"
    and "InitConfig_Loop E (c_str bytes) (InitLocals st) = Some st1"
    and "\<forall>ob \<in> set (ObjectTable st1).
           ObjectStartPriority ob + length (ObjectTable st1) * length (ObjectTable st1) < 2 ^ 64 \<and>
           ObjectStopPriority ob + length (ObjectTable st1) * length (ObjectTable st1) < 2 ^ 64"
  shows "length (ObjectTable st') = length (ObjectTable st1) \<and>
         (\<forall>i < length (ObjectTable st'). \<forall>j < length (ObjectTable st'). i \<noteq> j \<longrightarrow>
            (ObjectStartPriority (ObjectTable st' ! i) \<noteq> 0 \<longrightarrow>
               ObjectStartPriority (ObjectTable st' ! i) \<noteq> ObjectStartPriority (ObjectTable st' ! j)) \<and>
            (ObjectStopPriority (ObjectTable st' ! i) \<noteq> 0 \<longrightarrow>
               ObjectStopPriority (ObjectTable st' ! i) \<noteq> ObjectStopPriority (ObjectTable st' ! j))) \<and>
         (\<forall>i < length (ObjectTable st1).
            (ObjectStartPriority (ObjectTable st1 ! i) = 0 \<longrightarrow>
               ObjectStartPriority (ObjectTable st' ! i) = 0) \<and>
            (ObjectStopPriority (ObjectTable st1 ! i) = 0 \<longrightarrow>
               ObjectStopPriority (ObjectTable st' ! i) = 0))"
proof -
  have nf: "r \<noteq> FAILURE" using assms(2) by auto
  let ?T = "ObjectTable st1" and ?D = "DedupPriorities (ObjectTable st1)" and ?T' = "ObjectTable st'"
  from InitConfig_Loop_of_InitConfig[OF assms(1) nf] assms(3,4)
  have fin: "InitConfig_Finish E (c_str bytes) st1 = Some (r, st')" by auto
  have p: "map g ?T' = map g ?D" if "g = ObjectStartPriority \<or> g = ObjectStopPriority" for g
    using that InitConfig_Finish_settled[OF _ fin nf] settled_priorities by auto
  have b: "\<forall>i < length ?T. g (?T ! i) + length ?T * length ?T < 2 ^ 64"
    if "g = ObjectStartPriority \<or> g = ObjectStopPriority" for g
    using that assms(5) by (auto simp: all_set_conv_all_nth)
  have lenD: "length ?D = length ?T"
    by (rule DedupPriorities_unique(1)[of ObjectStartPriority, OF _ b]) simp_all
  have len: "length ?T' = length ?T"
    using map_eq_nth(1)[OF p[of ObjectStartPriority]] lenD by simp
  have s: "g (?T' ! i) = g (?D ! i)"
    if "g = ObjectStartPriority \<or> g = ObjectStopPriority" "i < length ?T" for g i
    using map_eq_nth(2)[OF p[OF that(1)], of i] that(2) lenD by simp
  have uniq: "g (?D ! i) \<noteq> g (?D ! j)"
    if "g = ObjectStartPriority \<or> g = ObjectStopPriority" "i < length ?T" "j < length ?T"
      "i \<noteq> j" "g (?D ! i) \<noteq> 0" for g i j
    using DedupPriorities_unique(3)[OF that(1) b[OF that(1)] that(2-)] .
  have zero: "g (?D ! i) = 0"
    if "g = ObjectStartPriority \<or> g = ObjectStopPriority" "i < length ?T" "g (?T ! i) = 0" for g i
    using DedupPriorities_unique(2)[OF that(1) b[OF that(1)] that(2)] that(3) by simp
  show ?thesis
  proof (intro conjI allI impI)
    show "length ?T' = length ?T" by (rule len)
  next
    fix i j assume "i < length ?T'" "j < length ?T'" "i \<noteq> j"
      "ObjectStartPriority (?T' ! i) \<noteq> 0"
    then show "ObjectStartPriority (?T' ! i) \<noteq> ObjectStartPriority (?T' ! j)"
      using uniq[of ObjectStartPriority i j] s[of ObjectStartPriority] len by simp
  next
    fix i j assume "i < length ?T'" "j < length ?T'" "i \<noteq> j"
      "ObjectStopPriority (?T' ! i) \<noteq> 0"
    then show "ObjectStopPriority (?T' ! i) \<noteq> ObjectStopPriority (?T' ! j)"
      using uniq[of ObjectStopPriority i j] s[of ObjectStopPriority] len by simp
  next
    fix i assume "i < length ?T" "ObjectStartPriority (?T ! i) = 0"
    then show "ObjectStartPriority (?T' ! i) = 0"
      using zero[of ObjectStartPriority i] s[of ObjectStartPriority i] by simp
  next
    fix i assume "i < length ?T" "ObjectStopPriority (?T ! i) = 0"
    then show "ObjectStopPriority (?T' ! i) = 0"
      using zero[of ObjectStopPriority i] s[of ObjectStopPriority i] by simp
  qed
qed

text \<open>
  \<open>Example_ties_conf\<close>: the objects \<open>a\<close> and \<open>b\<close> are declared with the start priority 3 and
  the stop priority 2, \<open>c\<close> with none.
\<close>

theorem InitConfig_priorities_unique_witness:
  "\<exists>st1 st'.
     InitConfig_Loop Example_env (c_str Example_ties_conf)
       (InitLocals (Example_boot Example_ties_conf)) = Some st1 \<and>
     map ObjectStartPriority (ObjectTable st1) = [3, 3, 0] \<and>
     map ObjectStopPriority (ObjectTable st1) = [2, 2, 0] \<and>
     InitConfig Example_env (Example_boot Example_ties_conf) = Some (SUCCESS, st') \<and>
     map ObjectStartPriority (ObjectTable st') = [3, 4, 0] \<and>
     map ObjectStopPriority (ObjectTable st') = [2, 3, 0] \<and>
     (\<forall>i < length (ObjectTable st'). \<forall>j < length (ObjectTable st'). i \<noteq> j \<longrightarrow>
        (ObjectStartPriority (ObjectTable st' ! i) \<noteq> 0 \<longrightarrow>
           ObjectStartPriority (ObjectTable st' ! i) \<noteq> ObjectStartPriority (ObjectTable st' ! j)) \<and>
        (ObjectStopPriority (ObjectTable st' ! i) \<noteq> 0 \<longrightarrow>
           ObjectStopPriority (ObjectTable st' ! i) \<noteq> ObjectStopPriority (ObjectTable st' ! j)))"
proof -
  let ?st = "Example_boot Example_ties_conf"
  have f: "ConfFile ?st = Some Example_ties_conf"
    by (simp add: Example_boot_def)
  have "map_option (\<lambda>s. (map ObjectStartPriority (ObjectTable s),
            map ObjectStopPriority (ObjectTable s)))
          (InitConfig_Loop Example_env (c_str Example_ties_conf) (InitLocals ?st))
        = Some ([3, 3, 0], [2, 2, 0])"
    by code_simp
  then obtain st1 where
    l: "InitConfig_Loop Example_env (c_str Example_ties_conf) (InitLocals ?st) = Some st1"
    and p1: "map ObjectStartPriority (ObjectTable st1) = [3, 3, 0]"
      "map ObjectStopPriority (ObjectTable st1) = [2, 2, 0]"
    by auto
  have "map_option (\<lambda>(r, s). (r, map ObjectStartPriority (ObjectTable s),
            map ObjectStopPriority (ObjectTable s)))
          (InitConfig Example_env ?st)
        = Some (SUCCESS, [3, 4, 0], [2, 3, 0])"
    by code_simp
  then obtain st' where
    i: "InitConfig Example_env ?st = Some (SUCCESS, st')"
    and v: "map ObjectStartPriority (ObjectTable st') = [3, 4, 0]"
      "map ObjectStopPriority (ObjectTable st') = [2, 3, 0]"
    by auto
  have n: "length (ObjectTable st1) = 3"
    using p1(1) by (metis length_map length_Cons list.size(3) numeral_3_eq_3)
  have b: "\<forall>ob \<in> set (ObjectTable st1).
             ObjectStartPriority ob + length (ObjectTable st1) * length (ObjectTable st1) < 2 ^ 64 \<and>
             ObjectStopPriority ob + length (ObjectTable st1) * length (ObjectTable st1) < 2 ^ 64"
  proof
    fix ob assume "ob \<in> set (ObjectTable st1)"
    then have "ObjectStartPriority ob \<in> set (map ObjectStartPriority (ObjectTable st1))"
      and "ObjectStopPriority ob \<in> set (map ObjectStopPriority (ObjectTable st1))"
      by simp_all
    then have "ObjectStartPriority ob \<le> 3" and "ObjectStopPriority ob \<le> 3"
      unfolding p1 by auto
    then show "ObjectStartPriority ob + length (ObjectTable st1) * length (ObjectTable st1) < 2 ^ 64 \<and>
               ObjectStopPriority ob + length (ObjectTable st1) * length (ObjectTable st1) < 2 ^ 64"
      unfolding n by simp
  qed
  from InitConfig_priorities_unique[OF i disjI1[OF refl] f l b]
  have u: "\<forall>i < length (ObjectTable st'). \<forall>j < length (ObjectTable st'). i \<noteq> j \<longrightarrow>
        (ObjectStartPriority (ObjectTable st' ! i) \<noteq> 0 \<longrightarrow>
           ObjectStartPriority (ObjectTable st' ! i) \<noteq> ObjectStartPriority (ObjectTable st' ! j)) \<and>
        (ObjectStopPriority (ObjectTable st' ! i) \<noteq> 0 \<longrightarrow>
           ObjectStopPriority (ObjectTable st' ! i) \<noteq> ObjectStopPriority (ObjectTable st' ! j))"
    by (elim conjE)
  show ?thesis
    by (rule exI[of _ st1], rule exI[of _ st'], intro conjI) (rule l p1 i v u)+
qed

text \<open>
  C2 as stated fails: in \<open>Example_wrap_conf\<close> the objects \<open>a\<close> and \<open>b\<close> are declared with
  the start priority 4294967295, which \<^verbatim>\<open>atoi\<close> gives as -1 and the field holds as
  \<open>2 ^ 64 - 1\<close>, and \<open>c\<close> has no priority line. \<open>InitConfig\<close> returns SUCCESS; the priority
  of \<open>b\<close> has wrapped around to 0, and \<open>c\<close>, whose priority was 0, has the priority 1.
\<close>

theorem InitConfig_priorities_wrap_counterexample:
  "(case InitConfig_Loop Example_env (c_str Example_wrap_conf)
           (InitLocals (Example_boot Example_wrap_conf)) of
      None \<Rightarrow> False
    | Some st1 \<Rightarrow>
        map (\<lambda>ob. (ObjectID ob, ObjectStartPriority ob)) (ObjectTable st1)
          = [(''a'', 18446744073709551615), (''b'', 18446744073709551615), (''c'', 0)]) \<and>
   (case InitConfig Example_env (Example_boot Example_wrap_conf) of
      None \<Rightarrow> False
    | Some (r, st') \<Rightarrow>
        r = SUCCESS \<and>
        map (\<lambda>ob. (ObjectID ob, ObjectStartPriority ob)) (ObjectTable st')
          = [(''a'', 18446744073709551615), (''b'', 0), (''c'', 1)])"
  by code_simp

subsection \<open>The parse loop, line by line\<close>

text \<open>
  \<^verbatim>\<open>NextLine\<close> in the parse loop of \<open>InitConfig\<close>: the blanks and the comment terminator
  skipped inside a line hold no newline.
\<close>

lemma NextLine_blanks: "NextLine (dropWhile is_blank w) = NextLine w"
proof -
  have "dropWhile (\<lambda>c. c \<noteq> NL) (dropWhile is_blank w) = dropWhile (\<lambda>c. c \<noteq> NL) w"
    by (induction w) (auto simp: is_blank_def)
  then show ?thesis by (simp add: NextLine_def)
qed

lemma NextLine_terminator:
  assumes "strncmp_eq w ''<!<''"
  shows "NextLine (drop (length ''<!<'') w) = NextLine w"
proof -
  from assms have "w = ''<!<'' @ drop (length ''<!<'') w"
    by (metis append_take_drop_id strncmp_eq_def)
  then have "dropWhile (\<lambda>c. c \<noteq> NL) w
      = dropWhile (\<lambda>c. c \<noteq> NL) (''<!<'' @ drop (length ''<!<'') w)"
    by simp
  also have "\<dots> = dropWhile (\<lambda>c. c \<noteq> NL) (drop (length ''<!<'') w)"
    by simp
  finally show ?thesis by (simp add: NextLine_def)
qed

text \<open>
  What a line of the file can change. A line is skipped, or it is handed to \<open>LiveLine\<close>
  as the text \<open>LineText\<close> gives.
\<close>

lemma LineBody_LiveLine:
  assumes "LineBody E W st = Some st'"
  shows "(ObjectTable st' = ObjectTable st \<and> PriorityAliasTree st' = PriorityAliasTree st \<and>
          CurObj st' = CurObj st)
         \<or> LiveLine E (LineText W) (st\<lparr>LongComment := False\<rparr>) = Some st'"
proof -
  have e: "st\<lparr>LongComment := False\<rparr> = st" if "\<not> LongComment st"
    using that by simp
  from assms show ?thesis
    by (auto simp: LineBody_def LineText_def Let_def report_def e split: if_splits)
qed








lemma extends_LineNum: "extends g s (s'\<lparr>LineNum := n\<rparr>) = extends g s s'"
  by (simp add: extends_def)

lemma same_table [simp]:
  "ObjectTable (report e s) = ObjectTable s"
  "ObjectTable (Problem t a v s) = ObjectTable s"
  "ObjectTable (NoDelim t a w s) = ObjectTable s"
  "ObjectTable (Truncated n a v d s) = ObjectTable s"
  by (simp_all add: report_def Problem_def NoDelim_def Truncated_def)

lemma same_CurObj [simp]:
  "CurObj (report e s) = CurObj s"
  "CurObj (Problem t a v s) = CurObj s"
  "CurObj (NoDelim t a w s) = CurObj s"
  "CurObj (Truncated n a v d s) = CurObj s"
  "CurObj (ModObj j f s) = CurObj s"
  by (simp_all add: report_def Problem_def NoDelim_def Truncated_def ModObj_def)

lemma same_aliases [simp]:
  "PriorityAliasTree (report e s) = PriorityAliasTree s"
  "PriorityAliasTree (Problem t a v s) = PriorityAliasTree s"
  "PriorityAliasTree (NoDelim t a w s) = PriorityAliasTree s"
  "PriorityAliasTree (Truncated n a v d s) = PriorityAliasTree s"
  "PriorityAliasTree (ModObj j f s) = PriorityAliasTree s"
  by (simp_all add: report_def Problem_def NoDelim_def Truncated_def ModObj_def)


lemma Do_Switch_frame:
  assumes "\<And>b s. ObjectTable (assign b s) = ObjectTable s"
  shows "ObjectTable (Do_Switch A fb assign E W s) = ObjectTable s"
  using assms by (simp add: Do_Switch_def split: option.splits)

lemma MountVirtual_frame:
  "ObjectTable (fold (MountVirtual_arg E D) args s) = ObjectTable s"
  by (induction args arbitrary: s) (simp_all add: MountVirtual_arg_def split: option.splits)


lemma ObjectOptions_arg_other:
  "length (ObjectTable (snd (ObjectOptions_arg j a s))) = length (ObjectTable s)"
  "i \<noteq> j \<Longrightarrow> ObjectTable (snd (ObjectOptions_arg j a s)) ! i = ObjectTable s ! i"
  by (simp_all add: ObjectOptions_arg_def TermSignal_arg_def Let_def ModObj_def)


lemma ObjectOptions_arg_rest [simp]:
  "CurObj (snd (ObjectOptions_arg j a s)) = CurObj s"
  "PriorityAliasTree (snd (ObjectOptions_arg j a s)) = PriorityAliasTree s"
  by (simp_all add: ObjectOptions_arg_def TermSignal_arg_def Let_def)

lemma ObjectOptions_loop_CurObj [simp]:
  "CurObj (ObjectOptions_loop E j args s) = CurObj s"
proof (induction args arbitrary: s)
  case Nil
  show ?case by simp
next
  case (Cons a args)
  obtain b s1 where o: "ObjectOptions_arg j (CurArgOf E a) s = (b, s1)"
    by (cases "ObjectOptions_arg j (CurArgOf E a) s")
  with ObjectOptions_arg_rest(1)[of j "CurArgOf E a" s] have "CurObj s1 = CurObj s" by simp
  with Cons.IH[of s1] o show ?case by (cases b) auto
qed

lemma ObjectOptions_loop_aliases [simp]:
  "PriorityAliasTree (ObjectOptions_loop E j args s) = PriorityAliasTree s"
proof (induction args arbitrary: s)
  case Nil
  show ?case by simp
next
  case (Cons a args)
  obtain b s1 where o: "ObjectOptions_arg j (CurArgOf E a) s = (b, s1)"
    by (cases "ObjectOptions_arg j (CurArgOf E a) s")
  with ObjectOptions_arg_rest(2)[of j "CurArgOf E a" s]
  have "PriorityAliasTree s1 = PriorityAliasTree s" by simp
  with Cons.IH[of s1] o show ?case by (cases b) auto
qed

lemma ObjectOptions_loop_other:
  "length (ObjectTable (ObjectOptions_loop E j args s)) = length (ObjectTable s) \<and>
   (i \<noteq> j \<longrightarrow> ObjectTable (ObjectOptions_loop E j args s) ! i = ObjectTable s ! i)"
proof (induction args arbitrary: s)
  case Nil
  then show ?case by simp
next
  case (Cons a args)
  obtain b s1 where o: "ObjectOptions_arg j (CurArgOf E a) s = (b, s1)"
    by (cases "ObjectOptions_arg j (CurArgOf E a) s")
  with ObjectOptions_arg_other(1)[of j "CurArgOf E a" s]
    ObjectOptions_arg_other(2)[of i j "CurArgOf E a" s]
  have "length (ObjectTable s1) = length (ObjectTable s)"
    and "i \<noteq> j \<Longrightarrow> ObjectTable s1 ! i = ObjectTable s ! i"
    by simp_all
  with Cons.IH[of s1] o show ?case by (cases b) auto
qed



lemma Do_Switch_rest:
  assumes "\<And>b s. CurObj (assign b s) = CurObj s"
    and "\<And>b s. PriorityAliasTree (assign b s) = PriorityAliasTree s"
  shows "CurObj (Do_Switch A fb assign E W s) = CurObj s"
    and "PriorityAliasTree (Do_Switch A fb assign E W s) = PriorityAliasTree s"
  using assms by (simp_all add: Do_Switch_def split: option.splits)

lemma MountVirtual_rest:
  "ObjectTable (fold (MountVirtual_arg E D) args s) = ObjectTable s \<and>
   CurObj (fold (MountVirtual_arg E D) args s) = CurObj s \<and>
   PriorityAliasTree (fold (MountVirtual_arg E D) args s) = PriorityAliasTree s"
  by (induction args arbitrary: s) (simp_all add: MountVirtual_arg_def split: option.splits)

lemma ObjectRunlevels_loop_rest:
  "ObjectRunlevels_loop E j args s = Some s' \<Longrightarrow>
     CurObj s' = CurObj s \<and> PriorityAliasTree s' = PriorityAliasTree s \<and>
     length (ObjectTable s') = length (ObjectTable s)"
proof (induction args arbitrary: s)
  case Nil
  then show ?case by simp
next
  case (Cons a args)
  let ?s1 = "ModObj j (ObjRL_AddRunlevel (MAX_DESCRIPT_SIZE E) (takeWhile (\<lambda>c. \<not> ends_arg c) a)) s"
  from Cons.prems have "ObjectRunlevels_loop E j args ?s1 = Some s'"
    by (simp add: Let_def split: if_splits)
  from Cons.IH[OF this] show ?case by (simp add: ModObj_def)
qed



lemma global_lines_aliases:
  "Do_RunlevelInherits E W s = Some s' \<Longrightarrow> PriorityAliasTree s' = PriorityAliasTree s"
  "PriorityAliasTree (Do_MountVirtual E W s) = PriorityAliasTree s"
  "PriorityAliasTree (Do_BootBannerText E W s) = PriorityAliasTree s"
  "PriorityAliasTree (Do_BootBannerColor E W s) = PriorityAliasTree s"
  "PriorityAliasTree (Do_DefaultRunlevel E W s) = PriorityAliasTree s"
  "PriorityAliasTree (Do_Hostname E W s) = PriorityAliasTree s"
  "PriorityAliasTree (Do_ObjectID E W s) = PriorityAliasTree s"
  by (auto simp: Do_RunlevelInherits_def Do_MountVirtual_def
      Do_BootBannerText_def Do_BootBannerColor_def Do_DefaultRunlevel_def Do_Hostname_def
      Do_ObjectID_def AddObjectToTable_def
      Let_def MountVirtual_rest split: option.splits if_splits)


lemma OfObject_rest:
  assumes "\<And>j D s. CurObj (body j D s) = CurObj s \<and>
             PriorityAliasTree (body j D s) = PriorityAliasTree s \<and>
             length (ObjectTable (body j D s)) = length (ObjectTable s)"
  shows "CurObj (OfObject A body E W s) = CurObj s"
    and "PriorityAliasTree (OfObject A body E W s) = PriorityAliasTree s"
    and "length (ObjectTable (OfObject A body E W s)) = length (ObjectTable s)"
  using assms by (simp_all add: OfObject_def split: option.splits)


lemma object_bodies_rest:
  "CurObj (ObjectEnabled_body j D s) = CurObj s \<and>
   PriorityAliasTree (ObjectEnabled_body j D s) = PriorityAliasTree s \<and>
   length (ObjectTable (ObjectEnabled_body j D s)) = length (ObjectTable s)"
  "CurObj (ObjectDescription_body E j D s) = CurObj s \<and>
   PriorityAliasTree (ObjectDescription_body E j D s) = PriorityAliasTree s \<and>
   length (ObjectTable (ObjectDescription_body E j D s)) = length (ObjectTable s)"
  "CurObj (ObjectStartCommand_body E j D s) = CurObj s \<and>
   PriorityAliasTree (ObjectStartCommand_body E j D s) = PriorityAliasTree s \<and>
   length (ObjectTable (ObjectStartCommand_body E j D s)) = length (ObjectTable s)"
  "CurObj (ObjectReloadCommand_body E j D s) = CurObj s \<and>
   PriorityAliasTree (ObjectReloadCommand_body E j D s) = PriorityAliasTree s \<and>
   length (ObjectTable (ObjectReloadCommand_body E j D s)) = length (ObjectTable s)"
  "CurObj (ObjectStopCommand_body E j D s) = CurObj s \<and>
   PriorityAliasTree (ObjectStopCommand_body E j D s) = PriorityAliasTree s \<and>
   length (ObjectTable (ObjectStopCommand_body E j D s)) = length (ObjectTable s)"
  "CurObj (ObjectStartPriority_body j D s) = CurObj s \<and>
   PriorityAliasTree (ObjectStartPriority_body j D s) = PriorityAliasTree s \<and>
   length (ObjectTable (ObjectStartPriority_body j D s)) = length (ObjectTable s)"
  "CurObj (ObjectStopPriority_body j D s) = CurObj s \<and>
   PriorityAliasTree (ObjectStopPriority_body j D s) = PriorityAliasTree s \<and>
   length (ObjectTable (ObjectStopPriority_body j D s)) = length (ObjectTable s)"
  "CurObj (ObjectOptions_body E j D s) = CurObj s \<and>
   PriorityAliasTree (ObjectOptions_body E j D s) = PriorityAliasTree s \<and>
   length (ObjectTable (ObjectOptions_body E j D s)) = length (ObjectTable s)"
  by (simp_all add: ObjectEnabled_body_def ObjectDescription_body_def
      ObjectStartCommand_body_def ObjectReloadCommand_body_def ObjectStopCommand_body_def
      ObjectStartPriority_body_def ObjectStopPriority_body_def Priority_body_def Let_def
      ObjectOptions_body_def ObjectOptions_loop_other ModObj_def)


lemma Do_ObjectRunlevels_rest:
  assumes "Do_ObjectRunlevels E W s = Some s'"
  shows "CurObj s' = CurObj s \<and> PriorityAliasTree s' = PriorityAliasTree s \<and>
         length (ObjectTable s') = length (ObjectTable s)"
  using assms
  by (auto simp: Do_ObjectRunlevels_def Let_def split: option.splits if_splits
      dest!: ObjectRunlevels_loop_rest)



lemma LiveLine_cases:
  assumes "LiveLine E X s = Some s'"
  shows "s' = s \<or> s' = report (Warn_Unidentified (LineNum s)) s \<or>
         (\<exists>a. Dispatch X = Some a \<and> Do_Attribute a E X s = Some s')"
  using assms by (auto simp: LiveLine_def split: if_splits option.splits)




lemma PriorityAlias_Add_map_of:
  "map_of (PriorityAlias_Add a t tree) x =
     (case map_of tree x of Some v \<Rightarrow> Some v | None \<Rightarrow> if x = a then Some t else None)"
  by (induction tree) (auto split: option.splits)

lemma LiveLine_aliases:
  assumes "LiveLine E X s = Some s'" and "map_of (PriorityAliasTree s) A = Some t"
  shows "map_of (PriorityAliasTree s') A = Some t"
proof -
  from LiveLine_cases[OF assms(1)] consider "s' = s" | "s' = report (Warn_Unidentified (LineNum s)) s"
    | a where "Dispatch X = Some a" "Do_Attribute a E X s = Some s'"
    by blast
  then show ?thesis
  proof cases
    case 1
    with assms(2) show ?thesis by simp
  next
    case 2
    with assms(2) show ?thesis by simp
  next
    case 3
    show ?thesis
    proof (cases "a = A_DefinePriority")
      case True
      with 3(2) assms(2) show ?thesis
        by (auto simp: Do_DefinePriority_def Let_def PriorityAlias_Add_map_of
            split: if_splits option.splits)
    next
      case False
      have "PriorityAliasTree s' = PriorityAliasTree s"
        using 3(2) False
        by (cases a)
          (auto simp: Do_Switch_rest global_lines_aliases OfObject_rest object_bodies_rest
            dest: Do_ObjectRunlevels_rest)
      with assms(2) show ?thesis by simp
    qed
  qed
qed




lemma LineBody_aliases:
  assumes "LineBody E W s = Some s'" and "map_of (PriorityAliasTree s) A = Some t"
  shows "map_of (PriorityAliasTree s') A = Some t"
  using LineBody_LiveLine[OF assms(1)]
proof
  assume "ObjectTable s' = ObjectTable s \<and> PriorityAliasTree s' = PriorityAliasTree s \<and>
          CurObj s' = CurObj s"
  with assms(2) show ?thesis by simp
next
  assume l: "LiveLine E (LineText W) (s\<lparr>LongComment := False\<rparr>) = Some s'"
  from LiveLine_aliases[OF l, of A t] assms(2) show ?thesis by simp
qed



subsection \<open>The signal of \<open>TERMSIGNAL=SIGHUP\<close>\<close>













subsection \<open>The editor\<close>

text \<open>
  C7 at a failing input. In \<open>Example_comment_conf\<close> the old start command of \<open>svc\<close> was
  left in a comment above the attribute. The file is parsed with SUCCESS, and the start
  command of \<open>svc\<close> is \<open>/bin/a\<close>. The edit of the start command of \<open>svc\<close> to this value
  returns SUCCESS, and the file it writes is not the file it read: the editor searches
  the attribute's name as a piece of text and only looks at the one byte before the
  place found, so it takes the comment for the attribute and rewrites the comment.
\<close>

theorem EditConfigValue_rewrites_comment:
  "(case InitConfig Example_env (Example_boot Example_comment_conf) of
      None \<Rightarrow> False
    | Some (r, st) \<Rightarrow>
        r = SUCCESS \<and>
        map (\<lambda>ob. (ObjectID ob, ObjectStartCommand ob)) (ObjectTable st) = [(''svc'', ''/bin/a'')]) \<and>
   (case EditConfigValue Example_env ''svc'' ''ObjectStartCommand'' ''/bin/a''
           (Example_boot Example_comment_conf) of
      None \<Rightarrow> False
    | Some (r, st') \<Rightarrow>
        r = SUCCESS \<and>
        ConfFile st' \<noteq> Some Example_comment_conf \<and>
        ConfFile st' = Some (unlines
          [''DefaultRunlevel default'',
           ''ObjectID svc'',
           ''# ObjectStartCommand /bin/a'',
           ''ObjectStartCommand /bin/a'',
           ''ObjectDescription d'',
           ''ObjectStopCommand NONE'',
           ''ObjectStartPriority 1'',
           ''ObjectRunlevels default'',
           ''ObjectEnabled true'']))"
  by code_simp

end
